theory Spec2Isabelle
  imports Main
begin

section \<open>Port sniffer: \<open>detectPortFromLog\<close> (src/main/apps/runner.ts)\<close>

subsection \<open>Regular expressions as backtracking matchers\<close>

text \<open>
  The patterns of \<open>detectPortFromLog\<close> are JavaScript regular expressions with the
  \<open>i\<close> flag and without the \<open>g\<close> flag. Every quantifier in them (\<open>\s+\<close>, \<open>\s*\<close>,
  \<open>.*?\<close>, \<open>\d+\<close>, \<open>[^:]+\<close>, \<open>[\s:]+\<close>) ranges over a single character class, and
  the only capture group is group 1. The matcher below is the continuation-passing
  matcher of the ECMAScript specification restricted to these forms: alternatives are
  tried left to right, a greedy quantifier tries the longest repetition first, a lazy
  one the shortest, and \<open>exec\<close> tries the start positions from left to right.

  A log message is a \<^typ>\<open>string\<close> of 8-bit code units; all pattern literals are ASCII.
\<close>

datatype rx =
    Eps
  | Chr "char \<Rightarrow> bool"
  | Seq rx rx
  | Alt rx rx
  | Star "char \<Rightarrow> bool"
  | LazyStar "char \<Rightarrow> bool"
  | Group rx

text \<open>Matcher state: the rest of the input and the text captured by group 1.\<close>

type_synonym mstate = "string \<times> string option"

fun star_greedy :: "(char \<Rightarrow> bool) \<Rightarrow> string \<Rightarrow> (string \<Rightarrow> 'r option) \<Rightarrow> 'r option" where
  "star_greedy p [] k = k []"
| "star_greedy p (c # cs) k =
     (if p c
      then (case star_greedy p cs k of Some r \<Rightarrow> Some r | None \<Rightarrow> k (c # cs))
      else k (c # cs))"

fun star_lazy :: "(char \<Rightarrow> bool) \<Rightarrow> string \<Rightarrow> (string \<Rightarrow> 'r option) \<Rightarrow> 'r option" where
  "star_lazy p [] k = k []"
| "star_lazy p (c # cs) k =
     (case k (c # cs) of
        Some r \<Rightarrow> Some r
      | None \<Rightarrow> if p c then star_lazy p cs k else None)"

primrec rx_match :: "rx \<Rightarrow> mstate \<Rightarrow> (mstate \<Rightarrow> 'r option) \<Rightarrow> 'r option" where
  "rx_match Eps st k = k st"
| "rx_match (Chr p) st k =
     (case fst st of [] \<Rightarrow> None | c # cs \<Rightarrow> if p c then k (cs, snd st) else None)"
| "rx_match (Seq a b) st k = rx_match a st (\<lambda>st'. rx_match b st' k)"
| "rx_match (Alt a b) st k =
     (case rx_match a st k of Some r \<Rightarrow> Some r | None \<Rightarrow> rx_match b st k)"
| "rx_match (Star p) st k = star_greedy p (fst st) (\<lambda>s'. k (s', snd st))"
| "rx_match (LazyStar p) st k = star_lazy p (fst st) (\<lambda>s'. k (s', snd st))"
| "rx_match (Group a) st k =
     rx_match a st
       (\<lambda>st'. k (fst st', Some (take (length (fst st) - length (fst st')) (fst st))))"

text \<open>
  \<open>exec\<close> of a non-global pattern: the leftmost start position at which the pattern
  matches; the result is the final matcher state (its second component is group 1).
\<close>

fun rx_exec :: "rx \<Rightarrow> string \<Rightarrow> mstate option" where
  "rx_exec r [] = rx_match r ([], None) Some"
| "rx_exec r (c # cs) =
     (case rx_match r (c # cs, None) Some of
        Some st \<Rightarrow> Some st
      | None \<Rightarrow> rx_exec r cs)"

text \<open>\<open>pattern.test(message)\<close>\<close>

definition rx_test :: "rx \<Rightarrow> string \<Rightarrow> bool" where
  "rx_test r s = (rx_exec r s \<noteq> None)"

subsection \<open>Character classes and pattern constructors\<close>

text \<open>
  Canonicalisation under the \<open>i\<close> flag maps a character to its upper-case form, and only
  ASCII letters canonicalise onto ASCII letters. A pattern character \<open>c\<close> therefore
  matches exactly the input characters \<open>upcase c\<close> and \<open>downcase c\<close>.
\<close>

definition upcase :: "char \<Rightarrow> char" where
  "upcase c =
     (case map_of (zip ''abcdefghijklmnopqrstuvwxyz'' ''ABCDEFGHIJKLMNOPQRSTUVWXYZ'') c of
        Some u \<Rightarrow> u
      | None \<Rightarrow> c)"

definition downcase :: "char \<Rightarrow> char" where
  "downcase c =
     (case map_of (zip ''ABCDEFGHIJKLMNOPQRSTUVWXYZ'' ''abcdefghijklmnopqrstuvwxyz'') c of
        Some l \<Rightarrow> l
      | None \<Rightarrow> c)"

definition char_is :: "char \<Rightarrow> char \<Rightarrow> char \<Rightarrow> bool" where
  "char_is u l d = (d = u \<or> d = l)"

definition ci :: "char \<Rightarrow> rx" where
  "ci c = Chr (char_is (upcase c) (downcase c))"

definition lit :: "string \<Rightarrow> rx" where
  "lit s = foldr (\<lambda>c r. Seq (ci c) r) s Eps"

text \<open>\<open>\d\<close>\<close>

definition is_digit :: "char \<Rightarrow> bool" where
  "is_digit c = (c \<in> set ''0123456789'')"

text \<open>\<open>\s\<close>: tab, line feed, vertical tab, form feed, carriage return, space, no-break space.\<close>

definition is_space :: "char \<Rightarrow> bool" where
  "is_space c = (c \<in> set [CHR 0x09, CHR 0x0A, CHR 0x0B, CHR 0x0C, CHR 0x0D, CHR 0x20, CHR 0xA0])"

text \<open>\<open>.\<close>: any character but a line terminator.\<close>

definition dot :: "char \<Rightarrow> bool" where
  "dot c = (c \<noteq> CHR 0x0A \<and> c \<noteq> CHR 0x0D)"

text \<open>\<open>[^:]\<close> and \<open>[\s:]\<close>\<close>

definition not_colon :: "char \<Rightarrow> bool" where
  "not_colon c = (c \<noteq> CHR '':'')"

definition space_or_colon :: "char \<Rightarrow> bool" where
  "space_or_colon c = (is_space c \<or> c = CHR '':'')"

definition plus :: "(char \<Rightarrow> bool) \<Rightarrow> rx" where
  "plus p = Seq (Chr p) (Star p)"

definition opt :: "rx \<Rightarrow> rx" where
  "opt r = Alt r Eps"

definition seqs :: "rx list \<Rightarrow> rx" where
  "seqs rs = foldr Seq rs Eps"

fun alts :: "rx list \<Rightarrow> rx" where
  "alts [] = Chr (\<lambda>_. False)"
| "alts [r] = r"
| "alts (r # rs) = Alt r (alts rs)"

text \<open>The capture group \<open>(\d+)\<close> that ends every port pattern.\<close>

definition port_group :: rx where
  "port_group = Group (plus is_digit)"

subsection \<open>The pattern tables\<close>

definition errorPatterns :: "rx list" where
  "errorPatterns =
     [lit ''error'', lit ''failed'', lit ''refused'', lit ''timeout'', lit ''cannot'',
      lit ''unable'', lit ''already in use'', lit ''bind'', lit ''connecting to'',
      lit ''connect to'', lit ''connection to'']"

text \<open>
  Flask \<open>/\*\s+Running on.*?:(\d+)/i\<close>,
  Streamlit \<open>/Local URL:\s*https?:\/\/[^:]+:(\d+)/i\<close>,
  Uvicorn \<open>/Uvicorn running on.*?:(\d+)/i\<close>,
  Django \<open>/Starting development server at.*?:(\d+)/i\<close>.
\<close>

definition frameworkPatterns :: "rx list" where
  "frameworkPatterns =
     [seqs [lit ''*'', plus is_space, lit ''Running on'', LazyStar dot, lit '':'', port_group],
      seqs [lit ''Local URL:'', Star is_space, lit ''http'', opt (lit ''s''), lit ''://'',
            plus not_colon, lit '':'', port_group],
      seqs [lit ''Uvicorn running on'', LazyStar dot, lit '':'', port_group],
      seqs [lit ''Starting development server at'', LazyStar dot, lit '':'', port_group]]"

text \<open>\<open>(?:listening|running|started|starting|serving|available)\<close>\<close>

definition positive_verbs :: rx where
  "positive_verbs =
     alts [lit ''listening'', lit ''running'', lit ''started'', lit ''starting'',
           lit ''serving'', lit ''available'']"

text \<open>
  \<open>/(?:listening|...|available).*?(?:on|at).*?:(\d+)/i\<close>,
  \<open>/(?:listening|...|available).*?(?:port|PORT)[\s:]+(\d+)/i\<close>,
  \<open>/server.*?(?:listening|running|started|starting).*?:(\d+)/i\<close>.
\<close>

definition positivePatterns :: "rx list" where
  "positivePatterns =
     [seqs [positive_verbs, LazyStar dot, alts [lit ''on'', lit ''at''], LazyStar dot,
            lit '':'', port_group],
      seqs [positive_verbs, LazyStar dot, alts [lit ''port'', lit ''PORT''],
            plus space_or_colon, port_group],
      seqs [lit ''server'', LazyStar dot,
            alts [lit ''listening'', lit ''running'', lit ''started'', lit ''starting''],
            LazyStar dot, lit '':'', port_group]]"

text \<open>\<open>/https?:\/\/(?:localhost|127\.0\.0\.1|0\.0\.0\.0|\*):(\d+)/i\<close>\<close>

definition urlPatterns :: "rx list" where
  "urlPatterns =
     [seqs [lit ''http'', opt (lit ''s''), lit ''://'',
            alts [lit ''localhost'', lit ''127.0.0.1'', lit ''0.0.0.0'', lit ''*''],
            lit '':'', port_group]]"

subsection \<open>\<open>detectPortFromLog\<close>\<close>

text \<open>\<open>PROCESS.PORT_MIN\<close> and \<open>PROCESS.PORT_MAX\<close> of shared/constants.\<close>

definition PORT_MIN :: int where
  "PORT_MIN = 1"

definition PORT_MAX :: int where
  "PORT_MAX = 65535"

definition digit_val :: "char \<Rightarrow> int" where
  "digit_val c =
     (case map_of (zip ''0123456789'' [0, 1, 2, 3, 4, 5, 6, 7, 8, 9]) c of
        Some d \<Rightarrow> d
      | None \<Rightarrow> 0)"

text \<open>
  \<open>parseInt(text, 10)\<close> on the text of group 1: the value of the leading run of
  decimal digits, \<open>None\<close> for NaN. The number is kept exact; a JavaScript double
  rounds only values far above \<open>PORT_MAX\<close>, and the rounding is monotone, so the
  range test below decides the same.
\<close>

definition parseInt10 :: "string \<Rightarrow> int option" where
  "parseInt10 s =
     (let ds = takeWhile is_digit s
      in if ds = [] then None else Some (foldl (\<lambda>n c. 10 * n + digit_val c) 0 ds))"

text \<open>
  \<open>const match = message.match(pattern); if (match && match[1]) { port = parseInt(match[1], 10) ... }\<close>:
  the candidate number of one pattern, \<open>None\<close> when the pattern does not match, group 1
  is absent or empty, or the number is NaN.
\<close>

definition matchPort :: "rx \<Rightarrow> string \<Rightarrow> int option" where
  "matchPort pattern message =
     (case rx_exec pattern message of
        None \<Rightarrow> None
      | Some st \<Rightarrow>
          (case snd st of
             None \<Rightarrow> None
           | Some g \<Rightarrow> if g = [] then None else parseInt10 g))"

text \<open>One \<open>for (const pattern of ...)\<close> loop: return the first candidate in range.\<close>

fun tryPatterns :: "rx list \<Rightarrow> string \<Rightarrow> int option" where
  "tryPatterns [] message = None"
| "tryPatterns (pattern # rest) message =
     (case matchPort pattern message of
        Some port \<Rightarrow>
          if PORT_MIN \<le> port \<and> port \<le> PORT_MAX then Some port
          else tryPatterns rest message
      | None \<Rightarrow> tryPatterns rest message)"

text \<open>The first loop: does any error pattern test positive?\<close>

fun anyErrorPattern :: "rx list \<Rightarrow> string \<Rightarrow> bool" where
  "anyErrorPattern [] message = False"
| "anyErrorPattern (pattern # rest) message =
     (if rx_test pattern message then True else anyErrorPattern rest message)"

definition detectPortFromLog :: "string \<Rightarrow> int option" where
  "detectPortFromLog message =
     (if anyErrorPattern errorPatterns message then None
      else case tryPatterns frameworkPatterns message of
        Some port \<Rightarrow> Some port
      | None \<Rightarrow>
          (case tryPatterns positivePatterns message of
             Some port \<Rightarrow> Some port
           | None \<Rightarrow> tryPatterns urlPatterns message))"

section \<open>The runner's state (src/main/apps/runner.ts)\<close>

type_synonym app_id = string
type_synonym pid = int
type_synonym timer_id = nat
type_synonym handle_ref = nat

text \<open>Messages handed to the \<open>onLog\<close> callback: the i18n keys with their parameters.\<close>

datatype log_msg =
    Line string
  | CommandRun string
  | ProcessStarted "pid option"
  | ProcessExited "int option"
  | ProcessError string
  | ProcessZombie pid
  | ProcessTerminated pid
  | ProcessStopping
  | WaitingForFlush
  | SigtermWarning string
  | SigtermSent pid
  | StopRequested
  | ForceKill
  | SigkillError string
  | ForceKilled
  | RecoveryLoading
  | RecoveryLoaded
  | RecoveryNoLogFile

datatype signal = SIGTERM | SIGKILL

text \<open>
  What the runner does to the outside: calls of the callbacks a caller supplied for an
  app (\<open>onLog\<close>, \<open>onPortDetected\<close>, \<open>onProcessStopped\<close>) and signals sent through
  tree-kill.
\<close>

datatype event =
    Log app_id log_msg
  | PortDetected app_id int
  | ProcessStopped app_id
  | Kill pid signal

text \<open>
  A call of \<open>spawn(command, args, options)\<close>: the command, the argument vector, and of
  the options the working directory, the environment and the file that receives
  standard output and standard error.
\<close>

record spawn_request =
  sp_command :: string
  sp_args :: "string list"
  sp_cwd :: "string option"
  sp_env :: "string \<rightharpoonup> string"
  sp_log :: string

text \<open>
  \<open>ChildProcess | RecoveredProcessHandle\<close>. A handle is an object with identity; its
  class and its \<open>pid\<close> never change (\<open>pid\<close> is undefined for a child that could not be
  spawned), so they travel with the reference. Its mutable parts, the \<open>watchInterval\<close>
  of a RecoveredProcessHandle and the listeners registered with \<open>proc.on\<close>, live in the
  state below, keyed by the reference.
\<close>

datatype handle_kind = ChildProcess | RecoveredProcessHandle

record proc =
  href :: handle_ref
  kind :: handle_kind
  proc_pid :: "pid option"

text \<open>\<open>interface ProcessInfo\<close>\<close>

record process_info =
  process :: proc
  startTime :: int
  appId :: app_id
  installPath :: "string option"
  logPollInterval :: "timer_id option"

text \<open>
  The closures given to \<open>setInterval\<close> and \<open>setTimeout\<close>, with the variables they
  capture: the stats poll of \<open>startStatsMonitoring\<close> (\<open>appId\<close>, whether
  \<open>onProcessStopped\<close> was supplied), the log poll of \<open>startLogPolling\<close> (\<open>appId\<close> of the
  callbacks, \<open>logFilePath\<close>, the current \<open>lastPosition\<close>, whether \<open>onPortDetected\<close> was
  supplied), the liveness watch of \<open>RecoveredProcessHandle.startWatch\<close>, and the SIGKILL
  fallback of \<open>stopApp\<close> (\<open>appId\<close>, \<open>proc\<close>).
\<close>

datatype timer_job =
    StatsPoll app_id bool
  | LogPoll app_id string nat bool
  | Watch proc
  | KillFallback app_id proc

text \<open>A listener pair registered by \<open>setupProcessHandlers\<close>: its \<open>appId\<close> and whether
  \<open>onProcessStopped\<close> was supplied.\<close>

type_synonym listener = "app_id \<times> bool"

text \<open>
  The module state of runner.ts: its three maps, the handles' mutable parts, the pending
  timers of the event loop, and what the runner has done so far (\<open>trace\<close>, \<open>spawned\<close>).
\<close>

record runner =
  runningProcesses :: "app_id \<rightharpoonup> process_info"
  stoppingProcesses :: "app_id \<rightharpoonup> timer_id"
  statsMonitoringTimers :: "app_id \<rightharpoonup> timer_id"
  watchInterval :: "handle_ref \<rightharpoonup> timer_id"
  listeners :: "handle_ref \<rightharpoonup> listener"
  timers :: "timer_id \<rightharpoonup> timer_job"
  next_timer :: timer_id
  next_handle :: handle_ref
  trace :: "event list"
  spawned :: "spawn_request list"

definition initial :: runner where
  "initial =
     \<lparr>runningProcesses = Map.empty, stoppingProcesses = Map.empty,
      statsMonitoringTimers = Map.empty, watchInterval = Map.empty, listeners = Map.empty,
      timers = Map.empty, next_timer = 0, next_handle = 0, trace = [], spawned = []\<rparr>"

definition emit :: "event \<Rightarrow> runner \<Rightarrow> runner" where
  "emit e s = s\<lparr>trace := trace s @ [e]\<rparr>"

definition onLog :: "app_id \<Rightarrow> log_msg \<Rightarrow> runner \<Rightarrow> runner" where
  "onLog a m s = emit (Log a m) s"

text \<open>\<open>if (typeof onProcessStopped === 'function') onProcessStopped()\<close>\<close>

definition notifyStopped :: "app_id \<Rightarrow> bool \<Rightarrow> runner \<Rightarrow> runner" where
  "notifyStopped a supplied s = (if supplied then emit (ProcessStopped a) s else s)"

text \<open>\<open>setInterval\<close> / \<open>setTimeout\<close>: a fresh timer; \<open>clearInterval\<close> / \<open>clearTimeout\<close>.\<close>

definition setTimer :: "timer_job \<Rightarrow> runner \<Rightarrow> timer_id \<times> runner" where
  "setTimer job s =
     (next_timer s, s\<lparr>timers := (timers s)(next_timer s \<mapsto> job), next_timer := Suc (next_timer s)\<rparr>)"

definition clearTimer :: "timer_id \<Rightarrow> runner \<Rightarrow> runner" where
  "clearTimer t s = s\<lparr>timers := (timers s)(t := None)\<rparr>"

subsection \<open>Stopping the polls\<close>

definition stopStatsMonitoring :: "app_id \<Rightarrow> runner \<Rightarrow> runner" where
  "stopStatsMonitoring a s =
     (case statsMonitoringTimers s a of
        Some timer \<Rightarrow>
          (clearTimer timer s)\<lparr>statsMonitoringTimers := (statsMonitoringTimers s)(a := None)\<rparr>
      | None \<Rightarrow> s)"

text \<open>
  \<open>stopLogPolling\<close> reaches the timer through the registry entry:
  \<open>const processInfo = runningProcesses.get(appId); if (processInfo?.logPollInterval) ...\<close>
\<close>

definition stopLogPolling :: "app_id \<Rightarrow> runner \<Rightarrow> runner" where
  "stopLogPolling a s =
     (case runningProcesses s a of
        None \<Rightarrow> s
      | Some processInfo \<Rightarrow>
          (case logPollInterval processInfo of
             None \<Rightarrow> s
           | Some timer \<Rightarrow>
               (clearTimer timer s)
                 \<lparr>runningProcesses :=
                    (runningProcesses s)(a \<mapsto> processInfo\<lparr>logPollInterval := None\<rparr>)\<rparr>))"

text \<open>\<open>cleanupProcessResources\<close>: delete the entry, then stop both polls, in this order.\<close>

definition cleanupProcessResources :: "app_id \<Rightarrow> runner \<Rightarrow> runner" where
  "cleanupProcessResources a s =
     stopStatsMonitoring a
       (stopLogPolling a (s\<lparr>runningProcesses := (runningProcesses s)(a := None)\<rparr>))"

datatype reason = Zombie | Terminated

definition cleanupTerminatedProcess ::
    "app_id \<Rightarrow> reason \<Rightarrow> pid \<Rightarrow> bool \<Rightarrow> runner \<Rightarrow> runner" where
  "cleanupTerminatedProcess a why p stoppedCb s =
     notifyStopped a stoppedCb
       (cleanupProcessResources a
          (onLog a (case why of Zombie \<Rightarrow> ProcessZombie p | Terminated \<Rightarrow> ProcessTerminated p) s))"

section \<open>The environment\<close>

text \<open>The outcome of the calls that create the log file and the child
  (\<open>getLogsDir\<close>, \<open>fs.openSync\<close>, \<open>spawn\<close>): a handle whose \<open>pid\<close> is undefined when the
  program could not be started, or an exception.\<close>

datatype spawn_outcome = Spawned "pid option" | SpawnThrows string

text \<open>
  What the operating system and the libraries answer when the runner asks:
  \<open>isProcessAlive\<close> (\<open>process.kill(pid, 0)\<close>), \<open>Date.now()\<close>, the content of a file by
  path (\<open>None\<close> when it does not exist), how a read stream cuts its data into chunks,
  the error tree-kill passes to its callback (\<open>None\<close> when the signal was delivered),
  \<open>process.platform === 'win32'\<close>, the string tokens shell-quote's \<open>parse\<close> finds in a
  command, the start command \<open>detectStartCommand\<close> reads from the project file of an
  installation path, \<open>getUvCommand()\<close>, \<open>getLogsDir()\<close>, \<open>process.env\<close>, and what the next
  \<open>spawn\<close> does.
\<close>

record world =
  alive :: "pid \<Rightarrow> bool"
  now :: int
  files :: "string \<rightharpoonup> string"
  chunks :: "string \<Rightarrow> string list"
  killError :: "pid \<Rightarrow> signal \<Rightarrow> string option"
  isWindows :: bool
  parseShellCommand :: "string \<Rightarrow> string list"
  detectStartCommand :: "string option \<Rightarrow> string option"
  uvCommand :: string
  logsDir :: string
  processEnv :: "string \<rightharpoonup> string"
  spawnResult :: spawn_outcome

section \<open>Process monitor (process-monitor.ts)\<close>

datatype health_status = Running | ZombieStatus | Unknown

text \<open>\<open>interface ProcessStats\<close>, without the CPU and memory figures.\<close>

record process_stats =
  stats_pid :: pid
  isAlive :: bool
  stats_startTime :: int
  lastChecked :: int
  status :: health_status

definition getProcessStats :: "world \<Rightarrow> pid \<Rightarrow> int \<Rightarrow> process_stats" where
  "getProcessStats w p start =
     \<lparr>stats_pid = p, isAlive = alive w p, stats_startTime = start, lastChecked = now w,
      status = (if alive w p then Running
                else if now w - start > 5000 then ZombieStatus
                else Unknown)\<rparr>"

section \<open>Log tailer: \<open>startLogPolling\<close>\<close>

text \<open>\<open>s.split('\n')\<close>: always at least one piece.\<close>

fun split_acc :: "string \<Rightarrow> string \<Rightarrow> string list" where
  "split_acc cur [] = [rev cur]"
| "split_acc cur (c # cs) =
     (if c = CHR 0x0A then rev cur # split_acc [] cs else split_acc (c # cur) cs)"

definition split_lines :: "string \<Rightarrow> string list" where
  "split_lines s = split_acc [] s"

text \<open>\<open>lines.pop()\<close>: the last element (undefined on an empty array) and the rest.\<close>

definition pop :: "'a list \<Rightarrow> 'a option \<times> 'a list" where
  "pop xs = (case rev xs of [] \<Rightarrow> (None, []) | x # rest \<Rightarrow> (Some x, rev rest))"

definition trim :: "string \<Rightarrow> string" where
  "trim s = rev (dropWhile is_space (rev (dropWhile is_space s)))"

text \<open>The body of \<open>lines.forEach\<close>: what one line makes the callbacks see.\<close>

definition lineEvents :: "app_id \<Rightarrow> bool \<Rightarrow> string \<Rightarrow> event list" where
  "lineEvents a portCb line =
     (if trim line \<noteq> []
      then Log a (Line line) #
           (if portCb
            then (case detectPortFromLog line of
                    Some port \<Rightarrow> if port \<noteq> 0 then [PortDetected a port] else []
                  | None \<Rightarrow> [])
            else [])
      else [])"

text \<open>
  The \<open>'data'\<close> handler: \<open>buffer += chunk; lines = buffer.split('\n');
  buffer = lines.pop() || ''\<close>, then each remaining line. The pair is the buffer and the
  events produced so far.
\<close>

definition onData ::
    "app_id \<Rightarrow> bool \<Rightarrow> string \<times> event list \<Rightarrow> string \<Rightarrow> string \<times> event list" where
  "onData a portCb acc chunk =
     (case pop (split_lines (fst acc @ chunk)) of
        (last_line, lines) \<Rightarrow>
          ((case last_line of Some l \<Rightarrow> l | None \<Rightarrow> []),
           snd acc @ concat (map (lineEvents a portCb) lines)))"

text \<open>
  One tick of the poll: nothing when the file does not exist or has not grown past
  \<open>lastPosition\<close>; otherwise a stream over the bytes \<open>lastPosition .. stats.size\<close> (the
  \<open>end\<close> option is inclusive), read chunk by chunk into a buffer that starts empty
  (\<open>let buffer = ''\<close> is local to the tick), and on \<open>'end'\<close> \<open>lastPosition = stats.size\<close>.
  The file is taken not to change while the tick reads it, and its content to be ASCII,
  where the UTF-8 decoding of the stream is the identity and byte offsets are character
  offsets. The result is the events and the new \<open>lastPosition\<close>.
\<close>

definition pollLog ::
    "string option \<Rightarrow> (string \<Rightarrow> string list) \<Rightarrow> app_id \<Rightarrow> bool \<Rightarrow> nat \<Rightarrow> event list \<times> nat" where
  "pollLog file chunker a portCb lastPosition =
     (case file of
        None \<Rightarrow> ([], lastPosition)
      | Some content \<Rightarrow>
          (let size = length content
           in if size > lastPosition
              then (let data = take (size + 1 - lastPosition) (drop lastPosition content)
                    in (snd (foldl (onData a portCb) ([], []) (chunker data)), size))
              else ([], lastPosition)))"

text \<open>A sequence of ticks over the successive contents of one file.\<close>

fun pollAll ::
    "(string \<Rightarrow> string list) \<Rightarrow> app_id \<Rightarrow> bool \<Rightarrow> nat \<Rightarrow> string option list \<Rightarrow> event list" where
  "pollAll chunker a portCb lastPosition [] = []"
| "pollAll chunker a portCb lastPosition (file # later) =
     (case pollLog file chunker a portCb lastPosition of
        (out, lastPosition') \<Rightarrow> out @ pollAll chunker a portCb lastPosition' later)"

section \<open>Termination handlers and timer callbacks\<close>

text \<open>\<open>proc.pid\<close> where the code tests it for truthiness: undefined and 0 are falsy.\<close>

definition pidOf :: "proc \<Rightarrow> pid option" where
  "pidOf pr = (case proc_pid pr of Some p \<Rightarrow> if p = 0 then None else Some p | None \<Rightarrow> None)"

text \<open>\<open>isProcessAlive(pid)\<close>; with an undefined pid \<open>process.kill\<close> throws, which reads as dead.\<close>

definition isProcessAlive :: "world \<Rightarrow> pid option \<Rightarrow> bool" where
  "isProcessAlive w p = (case p of Some n \<Rightarrow> alive w n | None \<Rightarrow> False)"

text \<open>\<open>RecoveredProcessHandle.stopWatch\<close>\<close>

definition stopWatch :: "handle_ref \<Rightarrow> runner \<Rightarrow> runner" where
  "stopWatch h s =
     (case watchInterval s h of
        Some timer \<Rightarrow> (clearTimer timer s)\<lparr>watchInterval := (watchInterval s)(h := None)\<rparr>
      | None \<Rightarrow> s)"

text \<open>\<open>const timeout = stoppingProcesses.get(appId); if (timeout) { clearTimeout(timeout);
  stoppingProcesses.delete(appId) }\<close>\<close>

definition clearStopping :: "app_id \<Rightarrow> runner \<Rightarrow> runner" where
  "clearStopping a s =
     (case stoppingProcesses s a of
        Some timeout \<Rightarrow> (clearTimer timeout s)\<lparr>stoppingProcesses := (stoppingProcesses s)(a := None)\<rparr>
      | None \<Rightarrow> s)"

text \<open>The \<open>'close'\<close> listener of \<open>setupProcessHandlers\<close>.\<close>

definition onClose :: "proc \<Rightarrow> listener \<Rightarrow> int option \<Rightarrow> runner \<Rightarrow> runner" where
  "onClose pr l code s =
     (let a = fst l;
          s1 = onLog a (ProcessExited code) s;
          s2 = clearStopping a s1;
          s3 = (if kind pr = RecoveredProcessHandle then stopWatch (href pr) s2 else s2);
          s4 = cleanupProcessResources a s3
      in notifyStopped a (snd l) s4)"

text \<open>The \<open>'error'\<close> listener of \<open>setupProcessHandlers\<close>.\<close>

definition onError :: "proc \<Rightarrow> listener \<Rightarrow> string \<Rightarrow> runner \<Rightarrow> runner" where
  "onError pr l message s =
     (let a = fst l;
          s1 = onLog a (ProcessError message) s;
          s2 = s1\<lparr>runningProcesses := (runningProcesses s1)(a := None)\<rparr>;
          s3 = clearStopping a s2;
          s4 = stopStatsMonitoring a s3;
          s5 = stopLogPolling a s4;
          s6 = (if kind pr = RecoveredProcessHandle then stopWatch (href pr) s5 else s5)
      in notifyStopped a (snd l) s6)"

text \<open>\<open>proc.emit('close', code, signal)\<close> and \<open>proc.emit('error', error)\<close>, by the operating
  system for a child and by the liveness watch for a recovered handle.\<close>

definition emitClose :: "proc \<Rightarrow> int option \<Rightarrow> runner \<Rightarrow> runner" where
  "emitClose pr code s =
     (case listeners s (href pr) of None \<Rightarrow> s | Some l \<Rightarrow> onClose pr l code s)"

definition emitError :: "proc \<Rightarrow> string \<Rightarrow> runner \<Rightarrow> runner" where
  "emitError pr message s =
     (case listeners s (href pr) of None \<Rightarrow> s | Some l \<Rightarrow> onError pr l message s)"

text \<open>
  The interval callback of \<open>startStatsMonitoring\<close>. When the process is dead,
  \<open>getProcessStats\<close> resolves without waiting for anything, so no other callback runs
  between the lookup of the entry and the cleanup.
\<close>

definition statsTick :: "world \<Rightarrow> app_id \<Rightarrow> bool \<Rightarrow> runner \<Rightarrow> runner" where
  "statsTick w a stoppedCb s =
     (case runningProcesses s a of
        None \<Rightarrow> stopStatsMonitoring a s
      | Some processInfo \<Rightarrow>
          (case pidOf (process processInfo) of
             None \<Rightarrow> s
           | Some p \<Rightarrow>
               (let health = getProcessStats w p (startTime processInfo)
                in if status health = ZombieStatus
                   then cleanupTerminatedProcess a Zombie p stoppedCb s
                   else if \<not> isAlive health
                   then cleanupTerminatedProcess a Terminated p stoppedCb s
                   else s)))"

text \<open>The interval callback of \<open>RecoveredProcessHandle.startWatch\<close>.\<close>

definition watchTick :: "world \<Rightarrow> proc \<Rightarrow> runner \<Rightarrow> runner" where
  "watchTick w pr s =
     (if \<not> isProcessAlive w (proc_pid pr)
      then emitClose pr None (stopWatch (href pr) s)
      else s)"

text \<open>The interval callback of \<open>startLogPolling\<close>; \<open>lastPosition\<close> is a variable of the
  closure, kept with the timer.\<close>

definition logTick ::
    "world \<Rightarrow> timer_id \<Rightarrow> app_id \<Rightarrow> string \<Rightarrow> nat \<Rightarrow> bool \<Rightarrow> runner \<Rightarrow> runner" where
  "logTick w t a logFilePath lastPosition portCb s =
     (case pollLog (files w logFilePath) (chunks w) a portCb lastPosition of
        (out, lastPosition') \<Rightarrow>
          s\<lparr>trace := trace s @ out,
            timers := (timers s)(t \<mapsto> LogPoll a logFilePath lastPosition' portCb)\<rparr>)"

text \<open>\<open>kill(pid, signal, callback)\<close> of tree-kill: the signal goes out, the result is the
  error handed to the callback.\<close>

definition killTree :: "world \<Rightarrow> pid \<Rightarrow> signal \<Rightarrow> runner \<Rightarrow> string option \<times> runner" where
  "killTree w p sig s = (killError w p sig, emit (Kill p sig) s)"

text \<open>The \<open>setTimeout\<close> callback of \<open>stopApp\<close>.\<close>

definition killFallback :: "world \<Rightarrow> app_id \<Rightarrow> proc \<Rightarrow> runner \<Rightarrow> runner" where
  "killFallback w a pr s =
     (case (if runningProcesses s a \<noteq> None then pidOf pr else None) of
        Some p \<Rightarrow>
          (case killTree w p SIGKILL (onLog a ForceKill s) of
             (err, s') \<Rightarrow>
               (let s'' = onLog a (case err of Some m \<Rightarrow> SigkillError m | None \<Rightarrow> ForceKilled) s'
                in s''\<lparr>stoppingProcesses := (stoppingProcesses s'')(a := None)\<rparr>))
      | None \<Rightarrow> s\<lparr>stoppingProcesses := (stoppingProcesses s)(a := None)\<rparr>)"

text \<open>
  The event loop runs a pending timer: a cleared timer never fires, an interval stays
  pending, a timeout is gone once it has fired.
\<close>

definition fire :: "world \<Rightarrow> timer_id \<Rightarrow> runner \<Rightarrow> runner" where
  "fire w t s =
     (case timers s t of
        None \<Rightarrow> s
      | Some job \<Rightarrow>
          (case job of
             StatsPoll a stoppedCb \<Rightarrow> statsTick w a stoppedCb s
           | LogPoll a logFilePath lastPosition portCb \<Rightarrow>
               logTick w t a logFilePath lastPosition portCb s
           | Watch pr \<Rightarrow> watchTick w pr s
           | KillFallback a pr \<Rightarrow> killFallback w a pr (clearTimer t s)))"

section \<open>\<open>setupProcessHandlers\<close>\<close>

definition startStatsMonitoring :: "app_id \<Rightarrow> bool \<Rightarrow> runner \<Rightarrow> runner" where
  "startStatsMonitoring a stoppedCb s =
     (if statsMonitoringTimers s a \<noteq> None then s
      else (case setTimer (StatsPoll a stoppedCb) s of
              (timer, s') \<Rightarrow> s'\<lparr>statsMonitoringTimers := (statsMonitoringTimers s')(a \<mapsto> timer)\<rparr>))"

definition startWatch :: "proc \<Rightarrow> runner \<Rightarrow> runner" where
  "startWatch pr s =
     (if watchInterval s (href pr) \<noteq> None then s
      else (case setTimer (Watch pr) s of
              (timer, s') \<Rightarrow> s'\<lparr>watchInterval := (watchInterval s')(href pr \<mapsto> timer)\<rparr>))"

text \<open>\<open>spawn\<close> and \<open>new RecoveredProcessHandle(pid)\<close> create a handle.\<close>

definition newHandle :: "handle_kind \<Rightarrow> pid option \<Rightarrow> runner \<Rightarrow> proc \<times> runner" where
  "newHandle k p s =
     (\<lparr>href = next_handle s, kind = k, proc_pid = p\<rparr>, s\<lparr>next_handle := Suc (next_handle s)\<rparr>)"

text \<open>
  \<open>setupProcessHandlers\<close>: register the listeners, put the entry into the registry
  (\<open>runningProcesses.set\<close>, which would replace an entry already there), start the log
  poll when a log file path is given, start the stats poll, start the watch of a
  recovered handle. The result is \<open>proc.pid\<close>.
\<close>

definition setupProcessHandlers ::
    "world \<Rightarrow> proc \<Rightarrow> app_id \<Rightarrow> string option \<Rightarrow> bool \<Rightarrow> bool \<Rightarrow> string option \<Rightarrow> runner
     \<Rightarrow> pid option \<times> runner" where
  "setupProcessHandlers w pr a path portCb stoppedCb logFilePath s =
     (let s1 = s\<lparr>listeners := (listeners s)(href pr \<mapsto> (a, stoppedCb))\<rparr>;
          processInfo = \<lparr>process = pr, startTime = now w, appId = a, installPath = path,
                         logPollInterval = None\<rparr>;
          s2 = s1\<lparr>runningProcesses := (runningProcesses s1)(a \<mapsto> processInfo)\<rparr>;
          s3 = (case logFilePath of
                  None \<Rightarrow> s2
                | Some f \<Rightarrow>
                    if f = [] then s2
                    else (case setTimer (LogPoll a f 0 portCb) s2 of
                            (timer, s') \<Rightarrow>
                              s'\<lparr>runningProcesses :=
                                   (runningProcesses s')
                                     (a \<mapsto> processInfo\<lparr>logPollInterval := Some timer\<rparr>)\<rparr>));
          s4 = startStatsMonitoring a stoppedCb s3;
          s5 = (if kind pr = RecoveredProcessHandle then startWatch pr s4 else s4)
      in (proc_pid pr, onLog a (ProcessStarted (proc_pid pr)) s5))"

section \<open>\<open>runApp\<close>\<close>

datatype run_error = AlreadyRunning | NoCommand | EmptyCommand | StartFailed string

text \<open>\<open>commandArgs.join(' ')\<close>\<close>

fun join_sp :: "string list \<Rightarrow> string" where
  "join_sp [] = []"
| "join_sp [x] = x"
| "join_sp (x # xs) = x @ '' '' @ join_sp xs"

text \<open>\<open>path.join(logsDir, `${appId}.log`)\<close>\<close>

definition logFileOf :: "world \<Rightarrow> app_id \<Rightarrow> string" where
  "logFileOf w a = logsDir w @ ''/'' @ a @ ''.log''"

text \<open>\<open>{ ...process.env, PYTHONUNBUFFERED: '1', ...env }\<close>; spreading an undefined \<open>env\<close>
  adds nothing.\<close>

definition spawnEnv :: "(string \<rightharpoonup> string) \<Rightarrow> (string \<rightharpoonup> string) option \<Rightarrow> (string \<rightharpoonup> string)" where
  "spawnEnv penv env =
     (penv(''PYTHONUNBUFFERED'' \<mapsto> ''1'')) ++ (case env of Some e \<Rightarrow> e | None \<Rightarrow> Map.empty)"

text \<open>
  The branches on \<open>commandArgs[0] === 'uv'\<close>: the arguments shown in the log line and the
  argument vector passed to \<open>spawn\<close>. After \<open>uv run\<close> both tokens are dropped and \<open>run\<close> is
  put in front again; after \<open>uv x\<close>, \<open>uv --with\<close> and any other \<open>uv\<close> subcommand only \<open>uv\<close>
  is dropped; every other command gets \<open>run\<close> in front.
\<close>

definition resolveCommand :: "string list \<Rightarrow> string list \<times> string list" where
  "resolveCommand commandArgs =
     (case commandArgs of
        [] \<Rightarrow> ([], [''run''])
      | first # rest \<Rightarrow>
          if first = ''uv''
          then (case rest of
                  [] \<Rightarrow> (commandArgs, rest)
                | second # rest' \<Rightarrow>
                    if second = ''run'' then (rest', ''run'' # rest')
                    else if second = ''x'' \<or> second = ''--with'' then (commandArgs, rest)
                    else (commandArgs, rest))
          else (commandArgs, ''run'' # commandArgs))"

text \<open>\<open>let commandToRun = runCommand; if (!commandToRun) commandToRun =
  detectStartCommand(installPath)\<close>; an empty string is falsy.\<close>

definition commandToRun :: "world \<Rightarrow> string option \<Rightarrow> string option \<Rightarrow> string option" where
  "commandToRun w runCommand path =
     (case runCommand of
        Some c \<Rightarrow> if c \<noteq> [] then Some c else detectStartCommand w path
      | None \<Rightarrow> detectStartCommand w path)"

text \<open>
  \<open>runApp(appId, installPath, runCommand, env, onLog, onPortDetected, onProcessStopped)\<close>;
  of the optional callbacks only whether they were supplied matters. The function has
  no \<open>await\<close>, so it runs in one piece. An exception thrown while the log file is opened
  or the child is spawned is caught and becomes \<open>start_failed\<close>.
\<close>

definition runApp ::
    "world \<Rightarrow> app_id \<Rightarrow> string option \<Rightarrow> string option \<Rightarrow> (string \<rightharpoonup> string) option \<Rightarrow> bool \<Rightarrow> bool
     \<Rightarrow> runner \<Rightarrow> (run_error + pid option) \<times> runner" where
  "runApp w a path runCommand env portCb stoppedCb s =
     (if runningProcesses s a \<noteq> None then (Inl AlreadyRunning, s)
      else (case commandToRun w runCommand path of
              None \<Rightarrow> (Inl NoCommand, s)
            | Some c \<Rightarrow>
                if c = [] then (Inl NoCommand, s)
                else (let commandArgs = parseShellCommand w c
                      in if commandArgs = [] then (Inl EmptyCommand, s)
                         else (case resolveCommand commandArgs of
                                 (shown, args) \<Rightarrow>
                                   (let s1 = onLog a (CommandRun (join_sp shown)) s
                                    in case spawnResult w of
                                         SpawnThrows message \<Rightarrow> (Inl (StartFailed message), s1)
                                       | Spawned p \<Rightarrow>
                                           (let request =
                                                  \<lparr>sp_command = uvCommand w, sp_args = args,
                                                   sp_cwd = path,
                                                   sp_env = spawnEnv (processEnv w) env,
                                                   sp_log = logFileOf w a\<rparr>;
                                                s2 = s1\<lparr>spawned := spawned s1 @ [request]\<rparr>
                                            in case newHandle ChildProcess p s2 of
                                                 (pr, s3) \<Rightarrow>
                                                   (case setupProcessHandlers w pr a path portCb
                                                           stoppedCb (Some (logFileOf w a)) s3 of
                                                      (r, s4) \<Rightarrow> (Inr r, s4))))))))"

section \<open>\<open>stopApp\<close>\<close>

datatype stop_error = NotRunning | NoPid | AlreadyStopping | StopFailed string

text \<open>
  \<open>stopApp(appId, onLog)\<close>. The checks, then \<open>stopStatsMonitoring\<close>, then inside \<open>try\<close>:
  on Windows a wait, the signal and \<open>success\<close>; elsewhere the signal, the SIGKILL
  fallback timer recorded in \<open>stoppingProcesses\<close>, and \<open>success\<close>. The callback of
  tree-kill logs the delivery error as a warning and resolves the promise in either
  case. Nothing inside \<open>try\<close> is modelled as throwing, so the \<open>catch\<close> that would return
  \<open>stop_failed\<close> is not reached. No other callback is interleaved at the \<open>await\<close>s.
\<close>

definition stopApp :: "world \<Rightarrow> app_id \<Rightarrow> runner \<Rightarrow> (stop_error + unit) \<times> runner" where
  "stopApp w a s =
     (case runningProcesses s a of
        None \<Rightarrow> (Inl NotRunning, s)
      | Some processInfo \<Rightarrow>
          (case pidOf (process processInfo) of
             None \<Rightarrow> (Inl NoPid, s)
           | Some p \<Rightarrow>
               if stoppingProcesses s a \<noteq> None then (Inl AlreadyStopping, s)
               else (let s1 = stopStatsMonitoring a s;
                         s2 = onLog a ProcessStopping s1
                     in if isWindows w
                        then (case killTree w p SIGTERM (onLog a WaitingForFlush s2) of
                                (err, s3) \<Rightarrow>
                                  (let s4 = onLog a (case err of
                                                       Some m \<Rightarrow> SigtermWarning m
                                                     | None \<Rightarrow> SigtermSent p) s3
                                   in (Inr (), onLog a StopRequested s4)))
                        else (case killTree w p SIGTERM s2 of
                                (err, s3) \<Rightarrow>
                                  (let s4 = onLog a (case err of
                                                       Some m \<Rightarrow> SigtermWarning m
                                                     | None \<Rightarrow> SigtermSent p) s3
                                   in case setTimer (KillFallback a (process processInfo)) s4 of
                                        (timeout, s5) \<Rightarrow>
                                          (let s6 = s5\<lparr>stoppingProcesses :=
                                                         (stoppingProcesses s5)(a \<mapsto> timeout)\<rparr>
                                           in (Inr (), onLog a StopRequested s6)))))))"

section \<open>\<open>recoverProcess\<close> and \<open>isRunning\<close>\<close>

text \<open>
  \<open>recoverProcess\<close>: replay the log file when it exists (the read is taken to succeed),
  create a RecoveredProcessHandle and hand it to \<open>setupProcessHandlers\<close> with the log
  file path. There is no check for an entry already in the registry.
\<close>

definition replayLog :: "world \<Rightarrow> app_id \<Rightarrow> runner \<Rightarrow> runner" where
  "replayLog w a s =
     (case files w (logFileOf w a) of
        Some existingLogs \<Rightarrow>
          s\<lparr>trace := trace s @ [Log a RecoveryLoading]
                 @ map (\<lambda>line. Log a (Line line))
                     (filter (\<lambda>line. trim line \<noteq> []) (split_lines existingLogs))
                 @ [Log a RecoveryLoaded]\<rparr>
      | None \<Rightarrow> onLog a RecoveryNoLogFile s)"

definition recoverProcess ::
    "world \<Rightarrow> app_id \<Rightarrow> pid \<Rightarrow> string option \<Rightarrow> bool \<Rightarrow> bool \<Rightarrow> runner \<Rightarrow> runner" where
  "recoverProcess w a p path portCb stoppedCb s =
     (case newHandle RecoveredProcessHandle (Some p) (replayLog w a s) of
        (recoveredHandle, s') \<Rightarrow>
          snd (setupProcessHandlers w recoveredHandle a path portCb stoppedCb
                 (Some (logFileOf w a)) s'))"

definition isRunning :: "world \<Rightarrow> app_id \<Rightarrow> runner \<Rightarrow> bool" where
  "isRunning w a s =
     (case runningProcesses s a of
        None \<Rightarrow> False
      | Some processInfo \<Rightarrow>
          (case pidOf (process processInfo) of
             None \<Rightarrow> False
           | Some p \<Rightarrow> alive w p))"

section \<open>Persistence (storage/persistence.ts) and the start-up recovery of the main process\<close>

datatype app_status = NotInstalled | Installing | Installed | AppRunning | AppError

text \<open>
  \<open>interface AppInfo\<close> and \<open>PersistedAppInfo\<close> (an AppInfo without \<open>status\<close> and
  \<open>errorMessage\<close>). The fields that neither persistence nor recovery looks at
  (\<open>sourcePath\<close>, \<open>sourceType\<close>, \<open>env\<close>, \<open>secrets\<close>, \<open>secretRefs\<close>) are copied along
  unchanged by the code and are left out here.
\<close>

record app_info =
  info_id :: app_id
  info_name :: string
  info_status :: app_status
  info_installPath :: "string option"
  info_runCommand :: "string option"
  info_errorMessage :: "string option"
  info_pid :: "pid option"
  info_port :: "int option"

record persisted_app =
  p_id :: app_id
  p_name :: string
  p_installPath :: "string option"
  p_runCommand :: "string option"
  p_pid :: "pid option"
  p_port :: "int option"

text \<open>\<open>Map.prototype.set\<close> on a map kept in insertion order: an existing key keeps its
  place, a new key goes to the end.\<close>

fun map_set :: "'k \<Rightarrow> 'v \<Rightarrow> ('k \<times> 'v) list \<Rightarrow> ('k \<times> 'v) list" where
  "map_set k v [] = [(k, v)]"
| "map_set k v (e # rest) = (if fst e = k then (k, v) # rest else e # map_set k v rest)"

text \<open>\<open>loadApps\<close>: every stored record comes back with status \<open>installed\<close>. The file is
  the list of its entries; a missing or unreadable file is the empty list.\<close>

definition restoredApp :: "persisted_app \<Rightarrow> app_info" where
  "restoredApp p =
     \<lparr>info_id = p_id p, info_name = p_name p, info_status = Installed,
      info_installPath = p_installPath p, info_runCommand = p_runCommand p,
      info_errorMessage = None, info_pid = p_pid p, info_port = p_port p\<rparr>"

definition loadApps :: "(app_id \<times> persisted_app) list \<Rightarrow> (app_id \<times> app_info) list" where
  "loadApps file = foldl (\<lambda>apps e. map_set (fst e) (restoredApp (snd e)) apps) [] file"

text \<open>\<open>saveApps\<close>: every app that is not being installed is written with its \<open>pid\<close> and
  \<open>port\<close>; the write is taken to succeed.\<close>

definition persistedOf :: "app_info \<Rightarrow> persisted_app" where
  "persistedOf app =
     \<lparr>p_id = info_id app, p_name = info_name app, p_installPath = info_installPath app,
      p_runCommand = info_runCommand app, p_pid = info_pid app, p_port = info_port app\<rparr>"

definition saveApps :: "(app_id \<times> app_info) list \<Rightarrow> (app_id \<times> persisted_app) list" where
  "saveApps apps =
     foldl (\<lambda>persistedApps e.
              if info_status (snd e) = Installing then persistedApps
              else map_set (fst e) (persistedOf (snd e)) persistedApps)
       [] apps"

text \<open>
  One round of the loop in \<open>app.whenReady\<close>: an app whose stored pid is alive is handed to
  \<open>recoverProcess\<close> (with both optional callbacks) and kept with status \<open>running\<close>; every
  other app loses \<open>pid\<close> and \<open>port\<close>, and a status \<open>running\<close> becomes \<open>installed\<close>.
\<close>

definition clearedApp :: "app_info \<Rightarrow> app_info" where
  "clearedApp appInfo =
     appInfo\<lparr>info_status := (if info_status appInfo = AppRunning then Installed
                               else info_status appInfo),
             info_pid := None, info_port := None\<rparr>"

definition recoverOne ::
    "world \<Rightarrow> app_id \<times> app_info \<Rightarrow> (app_id \<times> app_info) list \<times> runner
     \<Rightarrow> (app_id \<times> app_info) list \<times> runner" where
  "recoverOne w e st =
     (case info_pid (snd e) of
        Some p \<Rightarrow>
          if isProcessAlive w (Some p)
          then (map_set (fst e) ((snd e)\<lparr>info_status := AppRunning\<rparr>) (fst st),
                recoverProcess w (fst e) p (info_installPath (snd e)) True True (snd st))
          else (map_set (fst e) (clearedApp (snd e)) (fst st), snd st)
      | None \<Rightarrow> (map_set (fst e) (clearedApp (snd e)) (fst st), snd st))"

text \<open>The main process: the \<open>apps\<close> map, the runner module, and the file \<open>apps.json\<close>.\<close>

record supervisor =
  apps :: "(app_id \<times> app_info) list"
  run :: runner
  appsFile :: "(app_id \<times> persisted_app) list"

text \<open>Start-up: \<open>loadApps\<close>, the loop over the loaded entries starting from an empty
  \<open>apps\<close> map and a fresh runner, then \<open>saveApps(apps)\<close>. Nothing in the pass is taken
  to throw; no timer fires before the pass is over.\<close>

definition startup :: "world \<Rightarrow> (app_id \<times> persisted_app) list \<Rightarrow> supervisor" where
  "startup w file =
     (case foldl (\<lambda>st e. recoverOne w e st) ([], initial) (loadApps file) of
        (apps', r) \<Rightarrow> \<lparr>apps = apps', run = r, appsFile = saveApps apps'\<rparr>)"

text \<open>The \<open>list-apps\<close> handler: what the supervisor reports.\<close>

definition listApps :: "supervisor \<Rightarrow> app_info list" where
  "listApps sv = map snd (apps sv)"

text \<open>What the recovery loop stores for an app, as a function of the loaded record.\<close>

definition afterRecovery :: "world \<Rightarrow> app_info \<Rightarrow> app_info" where
  "afterRecovery w appInfo =
     (case info_pid appInfo of
        Some p \<Rightarrow> if alive w p then appInfo\<lparr>info_status := AppRunning\<rparr> else clearedApp appInfo
      | None \<Rightarrow> clearedApp appInfo)"

section \<open>A sample environment\<close>

text \<open>Tokens separated by spaces: what shell-quote's \<open>parse\<close> returns for a command
  without quotes, escapes, operators, variables, globs or comments.\<close>

fun words_acc :: "string \<Rightarrow> string \<Rightarrow> string list" where
  "words_acc cur [] = (if cur = [] then [] else [rev cur])"
| "words_acc cur (c # cs) =
     (if c = CHR '' ''
      then (if cur = [] then words_acc [] cs else rev cur # words_acc [] cs)
      else words_acc (c # cur) cs)"

definition words :: "string \<Rightarrow> string list" where
  "words s = words_acc [] s"

definition world0 :: world where
  "world0 =
     \<lparr>alive = (\<lambda>p. True), now = 1000, files = Map.empty, chunks = (\<lambda>d. [d]),
      killError = (\<lambda>p sig. None), isWindows = False, parseShellCommand = words,
      detectStartCommand = (\<lambda>path. None), uvCommand = ''uv'', logsDir = ''/logs'',
      processEnv = [''PATH'' \<mapsto> ''/usr/bin'', ''PYTHONUNBUFFERED'' \<mapsto> ''0''],
      spawnResult = Spawned (Some 4242)\<rparr>"

text \<open>The state after one successful launch of the app \<open>app\<close> from the initial state.\<close>

definition launched :: runner where
  "launched =
     snd (runApp world0 ''app'' (Some ''/apps/app'') (Some ''python main.py'') None True True
            initial)"

text \<open>The state after the process 4242 of the app \<open>app\<close> has been adopted from the initial
  state, and an environment, six seconds later, in which no process is alive.\<close>

definition adopted :: runner where
  "adopted = recoverProcess world0 ''app'' 4242 (Some ''/apps/app'') True True initial"

definition all_dead :: world where
  "all_dead = world0\<lparr>alive := (\<lambda>p. False), now := 7000\<rparr>"

text \<open>A stored file with two apps, and an environment in which only process 100 is alive.\<close>

definition stored0 :: "(app_id \<times> persisted_app) list" where
  "stored0 =
     [(''a'', \<lparr>p_id = ''a'', p_name = ''first'', p_installPath = Some ''/apps/a'',
              p_runCommand = Some ''python main.py'', p_pid = Some 100, p_port = Some 8000\<rparr>),
      (''b'', \<lparr>p_id = ''b'', p_name = ''second'', p_installPath = Some ''/apps/b'',
              p_runCommand = Some ''python main.py'', p_pid = Some 200, p_port = Some 9000\<rparr>)]"

definition only_100 :: world where
  "only_100 = world0\<lparr>alive := (\<lambda>p. p = 100)\<rparr>"

section \<open>Properties of the port sniffer\<close>

lemma tryPatterns_range:
  "tryPatterns ps message = Some port \<Longrightarrow> PORT_MIN \<le> port \<and> port \<le> PORT_MAX"
  by (induction ps) (auto split: option.splits if_splits)

lemma detectPortFromLog_range:
  assumes "detectPortFromLog message = Some port"
  shows "1 \<le> port \<and> port \<le> 65535"
proof -
  from assms obtain ps where "tryPatterns ps message = Some port"
    unfolding detectPortFromLog_def by (auto split: if_splits option.splits)
  from tryPatterns_range [OF this] show ?thesis
    by (simp add: PORT_MIN_def PORT_MAX_def)
qed

lemma tryPatterns_skip:
  assumes "matchPort pattern message = Some port" and "\<not> (1 \<le> port \<and> port \<le> 65535)"
  shows "tryPatterns (pattern # rest) message = tryPatterns rest message"
  using assms by (auto simp: PORT_MIN_def PORT_MAX_def)

lemma sniff_refused: "detectPortFromLog ''Error: Connection refused on port 5432'' = None"
  by code_simp

lemma sniff_flask: "detectPortFromLog '' * Running on http://127.0.0.1:5000'' = Some 5000"
  by code_simp

lemma sniff_db_then_server:
  "detectPortFromLog
     ''Connected to DB on port 5432. Server listening on http://0.0.0.0:8000'' = Some 8000"
  by code_simp

lemma sniff_error_beats_positive:
  "tryPatterns positivePatterns ''Error: server listening on port 5432'' = Some 5432"
  "detectPortFromLog ''Error: server listening on port 5432'' = None"
  by code_simp+

lemma sniff_class_beats_position:
  "tryPatterns positivePatterns ''listening on :1234 * Running on :5000'' = Some 1234"
  "detectPortFromLog ''listening on :1234 * Running on :5000'' = Some 5000"
  by code_simp+

lemma sniff_port_1: "detectPortFromLog ''http://localhost:1'' = Some 1"
  by code_simp

lemma sniff_port_65535: "detectPortFromLog ''http://localhost:65535'' = Some 65535"
  by code_simp

lemma sniff_port_0: "detectPortFromLog ''http://localhost:0'' = None"
  by code_simp

lemma sniff_port_65536: "detectPortFromLog ''http://localhost:65536'' = None"
  by code_simp

lemma sniff_continues:
  "matchPort (hd frameworkPatterns) '' * Running on :70000, listening on port 8080'' = Some 70000"
  "detectPortFromLog '' * Running on :70000, listening on port 8080'' = Some 8080"
  by code_simp+

text \<open>
  Claim C4. The sniffer returns none for \<open>Error: Connection refused on port 5432\<close>,
  5000 for the Flask line and 8000 (not 5432) for the line that mentions a database
  port before the server URL. A line on which any error pattern tests positive yields
  none whatever the later patterns would find (the fourth and fifth conjunct: the
  positive patterns alone would give 5432). On every other line the framework class
  is consulted first, then the positive-verb class, then the URL class, and the first
  class that yields a port decides, even when a later class matches a number further
  left in the line (the last two conjuncts).
\<close>

theorem C4_sniffer_examples_and_order:
  "detectPortFromLog ''Error: Connection refused on port 5432'' = None
   \<and> detectPortFromLog '' * Running on http://127.0.0.1:5000'' = Some 5000
   \<and> detectPortFromLog
         ''Connected to DB on port 5432. Server listening on http://0.0.0.0:8000'' = Some 8000
   \<and> (\<forall>message. anyErrorPattern errorPatterns message \<longrightarrow> detectPortFromLog message = None)
   \<and> tryPatterns positivePatterns ''Error: server listening on port 5432'' = Some 5432
   \<and> detectPortFromLog ''Error: server listening on port 5432'' = None
   \<and> (\<forall>message. \<not> anyErrorPattern errorPatterns message \<longrightarrow>
          detectPortFromLog message =
            (case tryPatterns frameworkPatterns message of
               Some port \<Rightarrow> Some port
             | None \<Rightarrow>
                 (case tryPatterns positivePatterns message of
                    Some port \<Rightarrow> Some port
                  | None \<Rightarrow> tryPatterns urlPatterns message)))
   \<and> tryPatterns positivePatterns
         ''listening on :1234 * Running on :5000'' = Some 1234
   \<and> detectPortFromLog ''listening on :1234 * Running on :5000'' = Some 5000"
  using sniff_refused sniff_flask sniff_db_then_server sniff_error_beats_positive
    sniff_class_beats_position
  by (simp add: detectPortFromLog_def)

theorem C4_sniffer_examples_and_order_witness:
  "anyErrorPattern errorPatterns ''Error: Connection refused on port 5432''
   \<and> detectPortFromLog ''Error: Connection refused on port 5432'' = None
   \<and> \<not> anyErrorPattern errorPatterns '' * Running on http://127.0.0.1:5000''
   \<and> tryPatterns frameworkPatterns '' * Running on http://127.0.0.1:5000'' = Some 5000
   \<and> detectPortFromLog '' * Running on http://127.0.0.1:5000'' = Some 5000"
proof -
  have neg: "anyErrorPattern errorPatterns ''Error: Connection refused on port 5432''"
    by code_simp
  have pos: "\<not> anyErrorPattern errorPatterns '' * Running on http://127.0.0.1:5000''"
    by code_simp
  have fw: "tryPatterns frameworkPatterns '' * Running on http://127.0.0.1:5000'' = Some 5000"
    by code_simp
  from C4_sniffer_examples_and_order neg
  have "detectPortFromLog ''Error: Connection refused on port 5432'' = None"
    by blast
  moreover from C4_sniffer_examples_and_order pos fw
  have "detectPortFromLog '' * Running on http://127.0.0.1:5000'' = Some 5000"
    by simp
  ultimately show ?thesis
    using neg pos fw by simp
qed

text \<open>
  Claim C5. Every port the sniffer returns lies between 1 and 65535, so 0 and 65536
  are never returned; 1 and 65535 are returned for suitable lines. A candidate out of
  range does not end the search: the loop goes on with the remaining patterns, as on
  the line whose Flask candidate is 70000 and whose result is the 8080 found by a later
  pattern class.
\<close>

theorem C5_sniffer_port_range:
  "(\<forall>message port. detectPortFromLog message = Some port \<longrightarrow> 1 \<le> port \<and> port \<le> 65535)
   \<and> (\<forall>message. detectPortFromLog message \<noteq> Some 0 \<and> detectPortFromLog message \<noteq> Some 65536)
   \<and> detectPortFromLog ''http://localhost:0'' = None
   \<and> detectPortFromLog ''http://localhost:65536'' = None
   \<and> detectPortFromLog ''http://localhost:1'' = Some 1
   \<and> detectPortFromLog ''http://localhost:65535'' = Some 65535
   \<and> (\<forall>pattern rest message port.
          matchPort pattern message = Some port \<and> \<not> (1 \<le> port \<and> port \<le> 65535) \<longrightarrow>
          tryPatterns (pattern # rest) message = tryPatterns rest message)
   \<and> matchPort (hd frameworkPatterns)
         '' * Running on :70000, listening on port 8080'' = Some 70000
   \<and> detectPortFromLog '' * Running on :70000, listening on port 8080'' = Some 8080"
proof -
  have range: "\<forall>message port. detectPortFromLog message = Some port \<longrightarrow> 1 \<le> port \<and> port \<le> 65535"
    using detectPortFromLog_range by blast
  have never: "\<forall>message. detectPortFromLog message \<noteq> Some 0 \<and> detectPortFromLog message \<noteq> Some 65536"
  proof (intro allI conjI notI)
    fix message assume "detectPortFromLog message = Some 0"
    from detectPortFromLog_range [OF this] show False by simp
  next
    fix message assume "detectPortFromLog message = Some 65536"
    from detectPortFromLog_range [OF this] show False by simp
  qed
  have skip: "\<forall>pattern rest message port.
      matchPort pattern message = Some port \<and> \<not> (1 \<le> port \<and> port \<le> 65535) \<longrightarrow>
      tryPatterns (pattern # rest) message = tryPatterns rest message"
    using tryPatterns_skip by blast
  from range never skip sniff_port_0 sniff_port_65536 sniff_port_1 sniff_port_65535
    sniff_continues
  show ?thesis by blast
qed

theorem C5_sniffer_port_range_witness:
  "detectPortFromLog ''http://localhost:65535'' = Some 65535
   \<and> (1::int) \<le> 65535 \<and> (65535::int) \<le> 65535
   \<and> matchPort (hd frameworkPatterns)
         '' * Running on :70000, listening on port 8080'' = Some 70000
   \<and> \<not> ((1::int) \<le> 70000 \<and> (70000::int) \<le> 65535)
   \<and> tryPatterns (hd frameworkPatterns # tl frameworkPatterns)
         '' * Running on :70000, listening on port 8080''
       = tryPatterns (tl frameworkPatterns) '' * Running on :70000, listening on port 8080''"
proof -
  note t = C5_sniffer_port_range
  from t have a: "detectPortFromLog ''http://localhost:65535'' = Some 65535"
    by blast
  from t have b: "matchPort (hd frameworkPatterns)
      '' * Running on :70000, listening on port 8080'' = Some 70000"
    by blast
  have c: "\<not> ((1::int) \<le> 70000 \<and> (70000::int) \<le> 65535)"
    by simp
  from t b c have "tryPatterns (hd frameworkPatterns # tl frameworkPatterns)
         '' * Running on :70000, listening on port 8080''
       = tryPatterns (tl frameworkPatterns) '' * Running on :70000, listening on port 8080''"
    by blast
  with a b c show ?thesis by simp
qed

section \<open>Properties of the runner\<close>

lemmas runner_defs =
  emit_def onLog_def notifyStopped_def setTimer_def clearTimer_def stopStatsMonitoring_def
  stopLogPolling_def cleanupProcessResources_def cleanupTerminatedProcess_def
  startStatsMonitoring_def startWatch_def newHandle_def setupProcessHandlers_def

lemma words_main: "words ''python main.py'' = [''python'', ''main.py'']"
  by (simp add: words_def)


lemma launched_entry:
  "runningProcesses launched ''app'' =
     Some \<lparr>process = \<lparr>href = 0, kind = ChildProcess, proc_pid = Some 4242\<rparr>, startTime = 1000,
           appId = ''app'', installPath = Some ''/apps/app'', logPollInterval = Some 0\<rparr>"
  by (simp add: launched_def runApp_def world0_def commandToRun_def words_main resolveCommand_def
      initial_def runner_defs Let_def logFileOf_def)

lemma setupProcessHandlers_others:
  "b \<noteq> a \<Longrightarrow>
   runningProcesses (snd (setupProcessHandlers w pr a path portCb stoppedCb logFilePath s)) b
     = runningProcesses s b"
  by (simp add: runner_defs Let_def split: option.splits prod.splits)

text \<open>The shape of every successful launch.\<close>

lemma runApp_success_form:
  assumes "runApp w a path runCommand env portCb stoppedCb s = (Inr r, s')"
  obtains c p where "runningProcesses s a = None"
    and "commandToRun w runCommand path = Some c" and "spawnResult w = Spawned p"
    and "s' = snd (setupProcessHandlers w
        (fst (newHandle ChildProcess p
           ((onLog a (CommandRun (join_sp (fst (resolveCommand (parseShellCommand w c))))) s)
              \<lparr>spawned := spawned s @
               [\<lparr>sp_command = uvCommand w,
                 sp_args = snd (resolveCommand (parseShellCommand w c)),
                 sp_cwd = path, sp_env = spawnEnv (processEnv w) env,
                 sp_log = logFileOf w a\<rparr>]\<rparr>)))
        a path portCb stoppedCb (Some (logFileOf w a))
        (snd (newHandle ChildProcess p
           ((onLog a (CommandRun (join_sp (fst (resolveCommand (parseShellCommand w c))))) s)
              \<lparr>spawned := spawned s @
               [\<lparr>sp_command = uvCommand w,
                 sp_args = snd (resolveCommand (parseShellCommand w c)),
                 sp_cwd = path, sp_env = spawnEnv (processEnv w) env,
                 sp_log = logFileOf w a\<rparr>]\<rparr>))))"
proof -
  from assms have n: "runningProcesses s a = None"
    by (auto simp: runApp_def split: if_splits)
  from assms obtain c p where c: "commandToRun w runCommand path = Some c"
    and sp: "spawnResult w = Spawned p"
    by (auto simp: runApp_def Let_def split: if_splits option.splits prod.splits spawn_outcome.splits)
  from assms c sp have "s' = snd (setupProcessHandlers w
        (fst (newHandle ChildProcess p
           ((onLog a (CommandRun (join_sp (fst (resolveCommand (parseShellCommand w c))))) s)
              \<lparr>spawned := spawned s @
               [\<lparr>sp_command = uvCommand w,
                 sp_args = snd (resolveCommand (parseShellCommand w c)),
                 sp_cwd = path, sp_env = spawnEnv (processEnv w) env,
                 sp_log = logFileOf w a\<rparr>]\<rparr>)))
        a path portCb stoppedCb (Some (logFileOf w a))
        (snd (newHandle ChildProcess p
           ((onLog a (CommandRun (join_sp (fst (resolveCommand (parseShellCommand w c))))) s)
              \<lparr>spawned := spawned s @
               [\<lparr>sp_command = uvCommand w,
                 sp_args = snd (resolveCommand (parseShellCommand w c)),
                 sp_cwd = path, sp_env = spawnEnv (processEnv w) env,
                 sp_log = logFileOf w a\<rparr>]\<rparr>))))"
    by (auto simp: runApp_def Let_def onLog_def emit_def split: if_splits option.splits prod.splits)
  with n c sp show thesis by (rule that)
qed

lemma runApp_success_registry:
  assumes "runApp w a path runCommand env portCb stoppedCb s = (Inr r, s')"
  shows "runningProcesses s a = None"
    and "b \<noteq> a \<Longrightarrow> runningProcesses s' b = runningProcesses s b"
proof -
  from assms show "runningProcesses s a = None"
    by (rule runApp_success_form)
  assume ne: "b \<noteq> a"
  from assms show "runningProcesses s' b = runningProcesses s b"
  proof (rule runApp_success_form)
    fix c p
    assume "s' = snd (setupProcessHandlers w
        (fst (newHandle ChildProcess p
           ((onLog a (CommandRun (join_sp (fst (resolveCommand (parseShellCommand w c))))) s)
              \<lparr>spawned := spawned s @
               [\<lparr>sp_command = uvCommand w,
                 sp_args = snd (resolveCommand (parseShellCommand w c)),
                 sp_cwd = path, sp_env = spawnEnv (processEnv w) env,
                 sp_log = logFileOf w a\<rparr>]\<rparr>)))
        a path portCb stoppedCb (Some (logFileOf w a))
        (snd (newHandle ChildProcess p
           ((onLog a (CommandRun (join_sp (fst (resolveCommand (parseShellCommand w c))))) s)
              \<lparr>spawned := spawned s @
               [\<lparr>sp_command = uvCommand w,
                 sp_args = snd (resolveCommand (parseShellCommand w c)),
                 sp_cwd = path, sp_env = spawnEnv (processEnv w) env,
                 sp_log = logFileOf w a\<rparr>]\<rparr>))))"
    then show ?thesis
      by (simp add: setupProcessHandlers_others [OF ne] newHandle_def onLog_def emit_def)
  qed
qed

text \<open>
  Claim C1. The registry is a map from app ids to entries, so an app id has at most one
  entry. A launch for an app id that has an entry fails with \<open>AlreadyRunning\<close> and
  returns the runner's state as it was: the entry with its handle, start time and
  install path, and every timer. A launch that succeeds found no entry for its app id
  and leaves the entries of all other app ids as they were.
\<close>

theorem C1_second_launch_rejected:
  "(runningProcesses s a \<noteq> None \<longrightarrow>
      runApp w a path runCommand env portCb stoppedCb s = (Inl AlreadyRunning, s))
   \<and> (\<forall>r s'. runApp w a path runCommand env portCb stoppedCb s = (Inr r, s') \<longrightarrow>
         runningProcesses s a = None
         \<and> (\<forall>b. b \<noteq> a \<longrightarrow> runningProcesses s' b = runningProcesses s b))"
proof (intro conjI impI allI)
  assume "runningProcesses s a \<noteq> None"
  then show "runApp w a path runCommand env portCb stoppedCb s = (Inl AlreadyRunning, s)"
    by (simp add: runApp_def)
next
  fix r s'
  assume "runApp w a path runCommand env portCb stoppedCb s = (Inr r, s')"
  then show "runningProcesses s a = None"
    by (rule runApp_success_registry(1))
next
  fix r s' b
  assume "runApp w a path runCommand env portCb stoppedCb s = (Inr r, s')" and "b \<noteq> a"
  then show "runningProcesses s' b = runningProcesses s b"
    by (rule runApp_success_registry(2))
qed

theorem C1_second_launch_rejected_witness:
  "runningProcesses launched ''app'' =
     Some \<lparr>process = \<lparr>href = 0, kind = ChildProcess, proc_pid = Some 4242\<rparr>, startTime = 1000,
           appId = ''app'', installPath = Some ''/apps/app'', logPollInterval = Some 0\<rparr>
   \<and> runApp world0 ''app'' (Some ''/apps/app'') (Some ''python main.py'') None True True launched
       = (Inl AlreadyRunning, launched)
   \<and> runApp world0 ''app'' (Some ''/apps/app'') (Some ''python main.py'') None True True initial
       = (Inr (Some 4242), launched)
   \<and> runningProcesses initial ''app'' = None
   \<and> runningProcesses launched ''other'' = runningProcesses initial ''other''"
proof -
  note t = C1_second_launch_rejected [of launched "''app''" world0 "Some ''/apps/app''"
      "Some ''python main.py''" None True True]
  note u = C1_second_launch_rejected [of initial "''app''" world0 "Some ''/apps/app''"
      "Some ''python main.py''" None True True]
  have "fst (runApp world0 ''app'' (Some ''/apps/app'') (Some ''python main.py'') None True True
      initial) = Inr (Some 4242)"
    by (simp add: runApp_def world0_def commandToRun_def words_main resolveCommand_def
        initial_def runner_defs Let_def logFileOf_def)
  then have first: "runApp world0 ''app'' (Some ''/apps/app'') (Some ''python main.py'') None
      True True initial = (Inr (Some 4242), launched)"
    by (simp add: launched_def prod_eq_iff)
  from t launched_entry
  have second: "runApp world0 ''app'' (Some ''/apps/app'') (Some ''python main.py'') None True
      True launched = (Inl AlreadyRunning, launched)"
    by simp
  from u [THEN conjunct2, rule_format, OF first]
  have "runningProcesses initial ''app'' = None"
    and "runningProcesses launched ''other'' = runningProcesses initial ''other''"
    by simp_all
  with launched_entry first second show ?thesis
    by (simp only: simp_thms)
qed

lemma setupProcessHandlers_spawned:
  "spawned (snd (setupProcessHandlers w pr a path portCb stoppedCb logFilePath s)) = spawned s"
  by (simp add: runner_defs Let_def split: option.splits prod.splits)

lemma runApp_success_spawned:
  assumes "runApp w a path runCommand env portCb stoppedCb s = (Inr r, s')"
  shows "\<exists>c. commandToRun w runCommand path = Some c \<and>
             spawned s' = spawned s @
               [\<lparr>sp_command = uvCommand w,
                 sp_args = snd (resolveCommand (parseShellCommand w c)),
                 sp_cwd = path, sp_env = spawnEnv (processEnv w) env,
                 sp_log = logFileOf w a\<rparr>]"
  using assms
proof (rule runApp_success_form)
  fix c p
  assume c: "commandToRun w runCommand path = Some c"
    and "s' = snd (setupProcessHandlers w
        (fst (newHandle ChildProcess p
           ((onLog a (CommandRun (join_sp (fst (resolveCommand (parseShellCommand w c))))) s)
              \<lparr>spawned := spawned s @
               [\<lparr>sp_command = uvCommand w,
                 sp_args = snd (resolveCommand (parseShellCommand w c)),
                 sp_cwd = path, sp_env = spawnEnv (processEnv w) env,
                 sp_log = logFileOf w a\<rparr>]\<rparr>)))
        a path portCb stoppedCb (Some (logFileOf w a))
        (snd (newHandle ChildProcess p
           ((onLog a (CommandRun (join_sp (fst (resolveCommand (parseShellCommand w c))))) s)
              \<lparr>spawned := spawned s @
               [\<lparr>sp_command = uvCommand w,
                 sp_args = snd (resolveCommand (parseShellCommand w c)),
                 sp_cwd = path, sp_env = spawnEnv (processEnv w) env,
                 sp_log = logFileOf w a\<rparr>]\<rparr>))))"
  then have "spawned s' = spawned s @
               [\<lparr>sp_command = uvCommand w,
                 sp_args = snd (resolveCommand (parseShellCommand w c)),
                 sp_cwd = path, sp_env = spawnEnv (processEnv w) env,
                 sp_log = logFileOf w a\<rparr>]"
    by (simp add: setupProcessHandlers_spawned newHandle_def onLog_def emit_def)
  with c show ?thesis by blast
qed

lemma spawnEnv_lookup:
  "spawnEnv penv env k =
     (case (case env of Some e \<Rightarrow> e k | None \<Rightarrow> None) of
        Some v \<Rightarrow> Some v
      | None \<Rightarrow> if k = ''PYTHONUNBUFFERED'' then Some ''1'' else penv k)"
  by (cases env) (auto simp: spawnEnv_def map_add_def split: option.splits)

text \<open>
  Claim C10. A successful launch spawns exactly one child, and its environment is the
  supervisor's \<open>process.env\<close>, then \<open>PYTHONUNBUFFERED=1\<close>, then the caller's map: a key
  the caller supplies has the caller's value, \<open>PYTHONUNBUFFERED\<close> is \<open>1\<close> unless the
  caller supplies it, and every other key the caller does not mention has the
  supervisor's value (or is absent when the supervisor has none).
\<close>

theorem C10_child_environment:
  assumes "runApp w a path runCommand env portCb stoppedCb s = (Inr r, s')"
  shows "\<exists>request.
           spawned s' = spawned s @ [request]
           \<and> sp_env request =
               ((processEnv w)(''PYTHONUNBUFFERED'' \<mapsto> ''1''))
                 ++ (case env of Some e \<Rightarrow> e | None \<Rightarrow> Map.empty)
           \<and> (\<forall>e k v. env = Some e \<and> e k = Some v \<longrightarrow> sp_env request k = Some v)
           \<and> ((\<forall>e. env = Some e \<longrightarrow> e ''PYTHONUNBUFFERED'' = None)
                \<longrightarrow> sp_env request ''PYTHONUNBUFFERED'' = Some ''1'')
           \<and> (\<forall>k. k \<noteq> ''PYTHONUNBUFFERED'' \<and> (\<forall>e. env = Some e \<longrightarrow> e k = None)
                \<longrightarrow> sp_env request k = processEnv w k)"
proof -
  from runApp_success_spawned [OF assms] obtain c where
    sp: "spawned s' = spawned s @
               [\<lparr>sp_command = uvCommand w,
                 sp_args = snd (resolveCommand (parseShellCommand w c)),
                 sp_cwd = path, sp_env = spawnEnv (processEnv w) env,
                 sp_log = logFileOf w a\<rparr>]"
    by blast
  let ?request = "\<lparr>sp_command = uvCommand w,
                 sp_args = snd (resolveCommand (parseShellCommand w c)),
                 sp_cwd = path, sp_env = spawnEnv (processEnv w) env,
                 sp_log = logFileOf w a\<rparr>"
  have 1: "sp_env ?request =
               ((processEnv w)(''PYTHONUNBUFFERED'' \<mapsto> ''1''))
                 ++ (case env of Some e \<Rightarrow> e | None \<Rightarrow> Map.empty)"
    by (simp add: spawnEnv_def)
  have 2: "\<forall>e k v. env = Some e \<and> e k = Some v \<longrightarrow> sp_env ?request k = Some v"
    by (simp add: spawnEnv_lookup)
  have 3: "(\<forall>e. env = Some e \<longrightarrow> e ''PYTHONUNBUFFERED'' = None)
                \<longrightarrow> sp_env ?request ''PYTHONUNBUFFERED'' = Some ''1''"
    by (cases env) (simp_all add: spawnEnv_lookup)
  have 4: "\<forall>k. k \<noteq> ''PYTHONUNBUFFERED'' \<and> (\<forall>e. env = Some e \<longrightarrow> e k = None)
                \<longrightarrow> sp_env ?request k = processEnv w k"
    by (cases env) (simp_all add: spawnEnv_lookup)
  show ?thesis
  proof (intro exI conjI)
    show "spawned s' = spawned s @ [?request]" by (rule sp)
  qed (rule 1 2 3 4)+
qed

lemma launch_env_result:
  "fst (runApp world0 ''app'' (Some ''/apps/app'') (Some ''python main.py'')
          (Some [''PORT'' \<mapsto> ''8000'', ''PATH'' \<mapsto> ''/opt/bin'']) True True initial)
   = Inr (Some 4242)"
  by (simp add: runApp_def world0_def commandToRun_def words_main resolveCommand_def
      initial_def runner_defs Let_def logFileOf_def)

theorem C10_child_environment_witness:
  "\<exists>request.
     spawned (snd (runApp world0 ''app'' (Some ''/apps/app'') (Some ''python main.py'')
                     (Some [''PORT'' \<mapsto> ''8000'', ''PATH'' \<mapsto> ''/opt/bin'']) True True initial))
       = spawned initial @ [request]
     \<and> sp_env request ''PORT'' = Some ''8000''
     \<and> sp_env request ''PATH'' = Some ''/opt/bin''
     \<and> sp_env request ''PYTHONUNBUFFERED'' = Some ''1''
     \<and> sp_env request ''HOME'' = processEnv world0 ''HOME''"
proof -
  let ?env = "[''PORT'' \<mapsto> ''8000'', ''PATH'' \<mapsto> ''/opt/bin'']"
  let ?run = "runApp world0 ''app'' (Some ''/apps/app'') (Some ''python main.py'')
                (Some ?env) True True initial"
  have "?run = (Inr (Some 4242), snd ?run)"
    using launch_env_result by (simp add: prod_eq_iff)
  from C10_child_environment [OF this] obtain request where
    r: "spawned (snd ?run) = spawned initial @ [request]"
    and o: "\<forall>e k v. Some ?env = Some e \<and> e k = Some v \<longrightarrow> sp_env request k = Some v"
    and u: "(\<forall>e. Some ?env = Some e \<longrightarrow> e ''PYTHONUNBUFFERED'' = None)
                \<longrightarrow> sp_env request ''PYTHONUNBUFFERED'' = Some ''1''"
    and p: "\<forall>k. k \<noteq> ''PYTHONUNBUFFERED'' \<and> (\<forall>e. Some ?env = Some e \<longrightarrow> e k = None)
                \<longrightarrow> sp_env request k = processEnv world0 k"
    by (elim exE conjE) (rule that, assumption+)
  from o [rule_format, of ?env "''PORT''" "''8000''"]
  have "sp_env request ''PORT'' = Some ''8000''" by simp
  moreover from o [rule_format, of ?env "''PATH''" "''/opt/bin''"]
  have "sp_env request ''PATH'' = Some ''/opt/bin''" by simp
  moreover from u have "sp_env request ''PYTHONUNBUFFERED'' = Some ''1''" by simp
  moreover from p [rule_format, of "''HOME''"]
  have "sp_env request ''HOME'' = processEnv world0 ''HOME''" by simp
  ultimately show ?thesis using r by (intro exI [of _ request]) simp
qed

lemma runApp_succeeds:
  assumes "runningProcesses s a = None"
    and "commandToRun w runCommand path = Some c" and "c \<noteq> []"
    and "parseShellCommand w c \<noteq> []" and "spawnResult w = Spawned p"
  shows "fst (runApp w a path runCommand env portCb stoppedCb s) = Inr p"
  using assms
  by (simp add: runApp_def Let_def setupProcessHandlers_def newHandle_def
      split: prod.splits)

lemma resolveCommand_plain:
  assumes "ts \<noteq> []" and "hd ts \<noteq> ''uv''"
  shows "resolveCommand ts = (ts, ''run'' # ts)"
  using assms by (cases ts) (simp_all add: resolveCommand_def)

lemma resolveCommand_uv_run: "resolveCommand (''uv'' # ''run'' # ts) = (ts, ''run'' # ts)"
  by (simp add: resolveCommand_def)

lemma runApp_spawned_args:
  assumes "runningProcesses s a = None"
    and "c \<noteq> []" and "parseShellCommand w c \<noteq> []" and "spawnResult w = Spawned p"
  shows "fst (runApp w a path (Some c) env portCb stoppedCb s) = Inr p
         \<and> spawned (snd (runApp w a path (Some c) env portCb stoppedCb s)) =
             spawned s @
               [\<lparr>sp_command = uvCommand w,
                 sp_args = snd (resolveCommand (parseShellCommand w c)),
                 sp_cwd = path, sp_env = spawnEnv (processEnv w) env,
                 sp_log = logFileOf w a\<rparr>]"
proof -
  let ?run = "runApp w a path (Some c) env portCb stoppedCb s"
  have c: "commandToRun w (Some c) path = Some c"
    using assms(2) by (simp add: commandToRun_def)
  have ok: "fst ?run = Inr p"
    using runApp_succeeds [OF assms(1) c assms(2) assms(3) assms(4)] .
  then have "?run = (Inr p, snd ?run)"
    by (simp add: prod_eq_iff)
  from runApp_success_spawned [OF this] c ok show ?thesis
    by simp
qed

text \<open>
  Claim C9, as amended. For a command whose token list is not empty and does not start
  with \<open>uv\<close>, launching the command and launching it behind a \<open>uv run\<close> prefix both
  succeed and spawn the same request, with the argument vector \<open>run\<close> followed by the
  command's tokens.
\<close>

theorem C9_wrapping_idempotent_unless_uv:
  assumes "parseShellCommand w X = ts"
    and "parseShellCommand w X' = ''uv'' # ''run'' # ts"
    and "ts \<noteq> []" and "hd ts \<noteq> ''uv''"
    and "X \<noteq> []" and "X' \<noteq> []"
    and "runningProcesses s a = None" and "spawnResult w = Spawned p"
  shows "fst (runApp w a path (Some X) env portCb stoppedCb s) = Inr p
         \<and> fst (runApp w a path (Some X') env portCb stoppedCb s) = Inr p
         \<and> spawned (snd (runApp w a path (Some X) env portCb stoppedCb s)) =
             spawned s @
               [\<lparr>sp_command = uvCommand w, sp_args = ''run'' # ts, sp_cwd = path,
                 sp_env = spawnEnv (processEnv w) env, sp_log = logFileOf w a\<rparr>]
         \<and> spawned (snd (runApp w a path (Some X') env portCb stoppedCb s)) =
             spawned (snd (runApp w a path (Some X) env portCb stoppedCb s))"
proof -
  have X: "parseShellCommand w X \<noteq> []" and X': "parseShellCommand w X' \<noteq> []"
    using assms(1,2,3) by simp_all
  note a = runApp_spawned_args [OF assms(7) assms(5) X assms(8), of path env portCb stoppedCb]
  note b = runApp_spawned_args [OF assms(7) assms(6) X' assms(8), of path env portCb stoppedCb]
  from a b show ?thesis
    by (simp add: assms(1,2) resolveCommand_plain [OF assms(3,4)] resolveCommand_uv_run)
qed

lemma words_wrapped: "words ''uv run python main.py'' = [''uv'', ''run'', ''python'', ''main.py'']"
  by (simp add: words_def)

theorem C9_wrapping_idempotent_unless_uv_witness:
  "fst (runApp world0 ''app'' (Some ''/apps/app'') (Some ''python main.py'') None True True initial)
     = Inr (Some 4242)
   \<and> fst (runApp world0 ''app'' (Some ''/apps/app'') (Some ''uv run python main.py'') None True True
            initial) = Inr (Some 4242)
   \<and> map sp_args
        (spawned (snd (runApp world0 ''app'' (Some ''/apps/app'') (Some ''python main.py'') None
                         True True initial))) = [[''run'', ''python'', ''main.py'']]
   \<and> spawned (snd (runApp world0 ''app'' (Some ''/apps/app'') (Some ''uv run python main.py'') None
                      True True initial))
       = spawned (snd (runApp world0 ''app'' (Some ''/apps/app'') (Some ''python main.py'') None
                         True True initial))"
proof -
  have 1: "parseShellCommand world0 ''python main.py'' = [''python'', ''main.py'']"
    by (simp add: world0_def words_main)
  have 2: "parseShellCommand world0 ''uv run python main.py''
             = ''uv'' # ''run'' # [''python'', ''main.py'']"
    by (simp add: world0_def words_wrapped)
  have 3: "[''python'', ''main.py''] \<noteq> []" by simp
  have 4: "hd [''python'', ''main.py''] \<noteq> ''uv''" by simp
  have 5: "''python main.py'' \<noteq> []" and 6: "''uv run python main.py'' \<noteq> []" by simp_all
  have 7: "runningProcesses initial ''app'' = None" by (simp add: initial_def)
  have 8: "spawnResult world0 = Spawned (Some 4242)" by (simp add: world0_def)
  from C9_wrapping_idempotent_unless_uv [OF 1 2 3 4 5 6 7 8, of "Some ''/apps/app''" None True True]
  show ?thesis by (simp add: initial_def)
qed

lemma words_uv_run_foo: "words ''uv run foo'' = [''uv'', ''run'', ''foo'']"
  by (simp add: words_def)

lemma words_uv_run_uv_run_foo:
  "words ''uv run uv run foo'' = [''uv'', ''run'', ''uv'', ''run'', ''foo'']"
  by (simp add: words_def)

lemma spawned_args_world0:
  assumes "c \<noteq> []" and "words c \<noteq> []"
  shows "map sp_args
           (spawned (snd (runApp world0 ''app'' (Some ''/apps/app'') (Some c) None True True initial)))
         = [snd (resolveCommand (words c))]"
proof -
  have "runningProcesses initial ''app'' = None" by (simp add: initial_def)
  moreover have "parseShellCommand world0 c \<noteq> []" using assms(2) by (simp add: world0_def)
  moreover have "spawnResult world0 = Spawned (Some 4242)" by (simp add: world0_def)
  ultimately show ?thesis
    using runApp_spawned_args [of initial "''app''" c world0 "Some 4242" "Some ''/apps/app''" None True True]
      assms(1)
    by (simp add: initial_def world0_def)
qed

text \<open>
  Claim C9 as stated fails for a command that itself starts with \<open>uv run\<close>: for
  \<open>X = uv run foo\<close> the launch of \<open>X\<close> spawns \<open>run foo\<close>, which is not \<open>run\<close> followed by
  the tokens of \<open>X\<close>, and the launch of \<open>uv run X\<close> spawns \<open>run uv run foo\<close>, which is not
  what the launch of \<open>X\<close> spawns.
\<close>

theorem C9_wrapping_counterexample:
  "words ''uv run foo'' = [''uv'', ''run'', ''foo'']
   \<and> map sp_args
        (spawned (snd (runApp world0 ''app'' (Some ''/apps/app'') (Some ''uv run foo'') None
                         True True initial))) = [[''run'', ''foo'']]
   \<and> map sp_args
        (spawned (snd (runApp world0 ''app'' (Some ''/apps/app'') (Some ''uv run uv run foo'') None
                         True True initial))) = [[''run'', ''uv'', ''run'', ''foo'']]
   \<and> map sp_args
        (spawned (snd (runApp world0 ''app'' (Some ''/apps/app'') (Some ''uv run uv run foo'') None
                         True True initial)))
     \<noteq> map sp_args
        (spawned (snd (runApp world0 ''app'' (Some ''/apps/app'') (Some ''uv run foo'') None
                         True True initial)))
   \<and> map sp_args
        (spawned (snd (runApp world0 ''app'' (Some ''/apps/app'') (Some ''uv run foo'') None
                         True True initial)))
     \<noteq> [''run'' # words ''uv run foo'']"
proof -
  have a: "map sp_args
        (spawned (snd (runApp world0 ''app'' (Some ''/apps/app'') (Some ''uv run foo'') None
                         True True initial))) = [[''run'', ''foo'']]"
    using spawned_args_world0 [of "''uv run foo''"]
    by (simp add: words_uv_run_foo resolveCommand_def)
  have b: "map sp_args
        (spawned (snd (runApp world0 ''app'' (Some ''/apps/app'') (Some ''uv run uv run foo'') None
                         True True initial))) = [[''run'', ''uv'', ''run'', ''foo'']]"
    using spawned_args_world0 [of "''uv run uv run foo''"]
    by (simp add: words_uv_run_uv_run_foo resolveCommand_def)
  show ?thesis
    unfolding a b by (simp add: words_uv_run_foo)
qed

lemma launched_state:
  "statsMonitoringTimers launched ''app'' = Some (Suc 0)"
  "stoppingProcesses launched ''app'' = None"
  "timers launched 0 = Some (LogPoll ''app'' ''/logs/app.log'' 0 True)"
  "timers launched (Suc 0) = Some (StatsPoll ''app'' True)"
  "next_timer launched = 2"
  "trace launched = [Log ''app'' (CommandRun ''python main.py''),
                     Log ''app'' (ProcessStarted (Some 4242))]"
  by (simp_all add: launched_def runApp_def world0_def commandToRun_def words_main
      resolveCommand_def initial_def runner_defs Let_def logFileOf_def)







text \<open>
  Claim C7, as amended. When \<open>stopApp\<close> has passed its checks and tree-kill reports that
  SIGTERM could not be delivered, the failure goes to the log callback as a warning and
  \<open>stopApp\<close> returns success all the same; off Windows the SIGKILL fallback timer is
  armed as if the signal had been delivered.
\<close>

theorem C7_signal_failure_is_logged:
  assumes "runningProcesses s a = Some processInfo"
    and "pidOf (process processInfo) = Some p"
    and "stoppingProcesses s a = None"
    and "killError w p SIGTERM = Some message"
  shows "fst (stopApp w a s) = Inr ()
         \<and> trace (snd (stopApp w a s)) =
             trace s @
               (if isWindows w
                then [Log a ProcessStopping, Log a WaitingForFlush, Kill p SIGTERM,
                      Log a (SigtermWarning message), Log a StopRequested]
                else [Log a ProcessStopping, Kill p SIGTERM,
                      Log a (SigtermWarning message), Log a StopRequested])
         \<and> (if isWindows w
             then stoppingProcesses (snd (stopApp w a s)) a = None
             else stoppingProcesses (snd (stopApp w a s)) a = Some (next_timer s)
                  \<and> timers (snd (stopApp w a s)) (next_timer s)
                      = Some (KillFallback a (process processInfo)))"
  using assms
  by (simp add: stopApp_def Let_def killTree_def onLog_def emit_def setTimer_def clearTimer_def
      stopStatsMonitoring_def split: option.splits prod.splits)

theorem C7_signal_failure_is_logged_witness:
  "killError (world0\<lparr>killError := (\<lambda>p sig. Some ''EPERM'')\<rparr>) 4242 SIGTERM = Some ''EPERM''
   \<and> fst (stopApp (world0\<lparr>killError := (\<lambda>p sig. Some ''EPERM'')\<rparr>) ''app'' launched) = Inr ()
   \<and> trace (snd (stopApp (world0\<lparr>killError := (\<lambda>p sig. Some ''EPERM'')\<rparr>) ''app'' launched)) =
       trace launched @ [Log ''app'' ProcessStopping, Kill 4242 SIGTERM,
                         Log ''app'' (SigtermWarning ''EPERM''), Log ''app'' StopRequested]"
proof -
  let ?w = "world0\<lparr>killError := (\<lambda>p sig. Some ''EPERM'')\<rparr>"
  have p: "pidOf (process \<lparr>process = \<lparr>href = 0, kind = ChildProcess, proc_pid = Some 4242\<rparr>,
      startTime = 1000, appId = ''app'', installPath = Some ''/apps/app'',
      logPollInterval = Some 0\<rparr>) = Some 4242"
    by (simp add: pidOf_def)
  have k: "killError ?w 4242 SIGTERM = Some ''EPERM''"
    by simp
  from C7_signal_failure_is_logged [OF launched_entry p launched_state(2) k] k
  show ?thesis
    by (simp add: world0_def)
qed

text \<open>
  Claim C7 as stated fails: with a tree-kill that reports \<open>EPERM\<close> for every signal,
  \<open>stopApp\<close> on a launched app returns success; the failure only shows as a warning
  in the log.
\<close>

theorem C7_swallowed_signal_failure_counterexample:
  "fst (stopApp (world0\<lparr>killError := (\<lambda>p sig. Some ''EPERM'')\<rparr>) ''app'' launched) = Inr ()
   \<and> Log ''app'' (SigtermWarning ''EPERM'')
       \<in> set (trace (snd (stopApp (world0\<lparr>killError := (\<lambda>p sig. Some ''EPERM'')\<rparr>) ''app'' launched)))"
  by (simp add: stopApp_def launched_entry launched_state pidOf_def Let_def killTree_def
      world0_def setTimer_def clearTimer_def stopStatsMonitoring_def onLog_def emit_def
      split: prod.splits)

text \<open>
  Claim C8 fails on the code. The buffer that holds back a partial line is created anew
  in every tick and dropped at its end, while \<open>lastPosition\<close> moves past the partial
  line. When a tick sees the file as \<open>Hello wor\<close> and the next tick sees it as
  \<open>Hello world\<close> followed by a newline, the callbacks receive the single line \<open>ld\<close>: the
  completed line is truncated at the tick boundary. The same file read in one tick gives
  the whole line, also when the stream cuts it into chunks.
\<close>

theorem C8_partial_line_lost_between_polls:
  "pollAll (\<lambda>d. [d]) ''app'' True 0 [Some ''Hello wor'', Some (''Hello world'' @ [CHR 0x0A])]
     = [Log ''app'' (Line ''ld'')]
   \<and> pollAll (\<lambda>d. [d]) ''app'' True 0 [Some (''Hello world'' @ [CHR 0x0A])]
     = [Log ''app'' (Line ''Hello world'')]
   \<and> pollAll (\<lambda>d. [take 9 d, drop 9 d]) ''app'' True 0 [Some (''Hello world'' @ [CHR 0x0A])]
     = [Log ''app'' (Line ''Hello world'')]"
  by code_simp

subsection \<open>Start-up recovery\<close>

lemma map_set_fresh: "k \<notin> fst ` set al \<Longrightarrow> map_set k v al = al @ [(k, v)]"
  by (induction al) auto

lemma foldl_map_set:
  "distinct (map fst acc @ map fst xs) \<Longrightarrow>
   foldl (\<lambda>acc e. map_set (fst e) (g e) acc) acc xs = acc @ map (\<lambda>e. (fst e, g e)) xs"
proof (induction xs arbitrary: acc)
  case Nil
  then show ?case by simp
next
  case (Cons x xs)
  from Cons.prems have fresh: "fst x \<notin> fst ` set acc"
    by auto
  from Cons.prems have "distinct (map fst (acc @ [(fst x, g x)]) @ map fst xs)"
    by auto
  from Cons.IH [OF this] show ?case
    by (simp add: map_set_fresh [OF fresh])
qed

lemma map_of_mapped:
  "distinct (map fst xs) \<Longrightarrow> (k, v) \<in> set xs \<Longrightarrow>
   map_of (map (\<lambda>e. (fst e, g e)) xs) k = Some (g (k, v))"
  by (induction xs) (auto simp: rev_image_eqI)

lemma map_of_mapped_none:
  "k \<notin> fst ` set xs \<Longrightarrow> map_of (map (\<lambda>e. (fst e, g e)) xs) k = None"
  by (induction xs) auto

lemma loadApps_distinct:
  assumes "distinct (map fst file)"
  shows "loadApps file = map (\<lambda>e. (fst e, restoredApp (snd e))) file"
  using foldl_map_set [where acc = "[]" and xs = "file" and g = "\<lambda>e. restoredApp (snd e)"] assms
  by (simp add: loadApps_def)

text \<open>What one round of the loop stores for an app.\<close>

lemma recoverOne_apps:
  "fst (recoverOne w e st) =
     map_set (fst e)
       (case info_pid (snd e) of
          Some p \<Rightarrow> if alive w p then (snd e)\<lparr>info_status := AppRunning\<rparr> else clearedApp (snd e)
        | None \<Rightarrow> clearedApp (snd e))
       (fst st)"
  by (simp add: recoverOne_def isProcessAlive_def split: option.splits)

lemma recoverAll_apps:
  "fst (foldl (\<lambda>st e. recoverOne w e st) st xs) =
     foldl (\<lambda>acc e. map_set (fst e)
                      (case info_pid (snd e) of
                         Some p \<Rightarrow> if alive w p then (snd e)\<lparr>info_status := AppRunning\<rparr>
                                   else clearedApp (snd e)
                       | None \<Rightarrow> clearedApp (snd e)) acc)
       (fst st) xs"
  by (induction xs arbitrary: st) (simp_all add: recoverOne_apps)

lemma recoverProcess_registry:
  "runningProcesses (recoverProcess w a p path portCb stoppedCb s) =
     (runningProcesses s)
       (a \<mapsto> \<lparr>process = \<lparr>href = next_handle s, kind = RecoveredProcessHandle, proc_pid = Some p\<rparr>,
              startTime = now w, appId = a, installPath = path,
              logPollInterval = Some (next_timer s)\<rparr>)"
  by (simp add: recoverProcess_def replayLog_def logFileOf_def runner_defs Let_def
      split: option.splits)

lemma recoverOne_registry:
  "runningProcesses (snd (recoverOne w e st)) k =
     (if fst e = k
      then (case info_pid (snd e) of
              Some p \<Rightarrow>
                if alive w p
                then Some \<lparr>process = \<lparr>href = next_handle (snd st), kind = RecoveredProcessHandle,
                                      proc_pid = Some p\<rparr>,
                           startTime = now w, appId = k, installPath = info_installPath (snd e),
                           logPollInterval = Some (next_timer (snd st))\<rparr>
                else runningProcesses (snd st) k
            | None \<Rightarrow> runningProcesses (snd st) k)
      else runningProcesses (snd st) k)"
  by (auto simp: recoverOne_def isProcessAlive_def recoverProcess_registry split: option.splits)

lemma recoverAll_registry_other:
  "k \<notin> fst ` set xs \<Longrightarrow>
   runningProcesses (snd (foldl (\<lambda>st e. recoverOne w e st) st xs)) k = runningProcesses (snd st) k"
  by (induction xs arbitrary: st) (auto simp: recoverOne_registry)

lemma recoverAll_registry:
  assumes "distinct (map fst xs)" and "(k, v) \<in> set xs"
    and "runningProcesses (snd st) k = None"
  shows "case info_pid v of
           Some p \<Rightarrow>
             if alive w p
             then \<exists>processInfo.
                    runningProcesses (snd (foldl (\<lambda>st e. recoverOne w e st) st xs)) k
                      = Some processInfo
                    \<and> process processInfo
                        = \<lparr>href = href (process processInfo), kind = RecoveredProcessHandle,
                           proc_pid = Some p\<rparr>
             else runningProcesses (snd (foldl (\<lambda>st e. recoverOne w e st) st xs)) k = None
         | None \<Rightarrow> runningProcesses (snd (foldl (\<lambda>st e. recoverOne w e st) st xs)) k = None"
  using assms
proof (induction xs arbitrary: st)
  case Nil
  then show ?case by simp
next
  case (Cons x xs)
  show ?case
  proof (cases "x = (k, v)")
    case True
    with Cons.prems(1) have "k \<notin> fst ` set xs"
      by auto
    from recoverAll_registry_other [OF this, of w "recoverOne w x st"] True Cons.prems(3)
    show ?thesis
      by (auto simp: recoverOne_registry split: option.splits)
  next
    case False
    with Cons.prems have in_xs: "(k, v) \<in> set xs" and d: "distinct (map fst xs)"
      and ne: "fst x \<noteq> k"
      by (auto simp: rev_image_eqI)
    from ne Cons.prems(3) have none: "runningProcesses (snd (recoverOne w x st)) k = None"
      by (simp add: recoverOne_registry)
    show ?thesis
      unfolding foldl_Cons by (rule Cons.IH [OF d in_xs none])
  qed
qed

lemma afterRecovery_status: "info_status (afterRecovery w (restoredApp stored)) \<noteq> Installing"
  by (simp add: afterRecovery_def restoredApp_def clearedApp_def split: option.splits)

lemma startup_apps:
  assumes "distinct (map fst file)"
  shows "apps (startup w file) =
           map (\<lambda>e. (fst e, afterRecovery w (restoredApp (snd e)))) file"
proof -
  have d: "distinct (map fst [] @ map fst (loadApps file))"
    using assms by (simp add: loadApps_distinct comp_def)
  have "fst (foldl (\<lambda>st e. recoverOne w e st) ([], initial) (loadApps file)) =
        foldl (\<lambda>acc e. map_set (fst e) (afterRecovery w (snd e)) acc) [] (loadApps file)"
    by (simp add: recoverAll_apps afterRecovery_def)
  also have "\<dots> = map (\<lambda>e. (fst e, afterRecovery w (snd e))) (loadApps file)"
    using foldl_map_set [OF d, where g = "\<lambda>e. afterRecovery w (snd e)"]
    by simp
  also have "\<dots> = map (\<lambda>e. (fst e, afterRecovery w (restoredApp (snd e)))) file"
    by (simp add: loadApps_distinct [OF assms] comp_def)
  finally show ?thesis
    by (simp add: startup_def case_prod_beta)
qed

lemma saveApps_all:
  assumes "distinct (map fst xs)" and "\<And>e. e \<in> set xs \<Longrightarrow> info_status (snd e) \<noteq> Installing"
  shows "saveApps xs = map (\<lambda>e. (fst e, persistedOf (snd e))) xs"
proof -
  have "saveApps xs = foldl (\<lambda>acc e. map_set (fst e) (persistedOf (snd e)) acc) [] xs"
    unfolding saveApps_def by (rule foldl_cong) (simp_all add: assms(2))
  with foldl_map_set [where acc = "[]" and xs = xs and g = "\<lambda>e. persistedOf (snd e)"] assms(1)
  show ?thesis by simp
qed

lemma startup_appsFile:
  assumes "distinct (map fst file)"
  shows "appsFile (startup w file) =
           map (\<lambda>e. (fst e, persistedOf (afterRecovery w (restoredApp (snd e))))) file"
proof -
  have f: "appsFile (startup w file) = saveApps (apps (startup w file))"
    by (simp add: startup_def case_prod_beta)
  have "saveApps (map (\<lambda>e. (fst e, afterRecovery w (restoredApp (snd e)))) file) =
        map (\<lambda>e. (fst e, persistedOf (snd e)))
          (map (\<lambda>e. (fst e, afterRecovery w (restoredApp (snd e)))) file)"
    by (rule saveApps_all) (use assms in \<open>auto simp: comp_def afterRecovery_status\<close>)
  then show ?thesis
    by (simp add: f startup_apps [OF assms] comp_def)
qed

lemma startup_registry:
  assumes "distinct (map fst file)" and "(k, stored) \<in> set file" and "p_pid stored = Some p"
  shows "if alive w p
         then \<exists>processInfo.
                runningProcesses (run (startup w file)) k = Some processInfo
                \<and> process processInfo
                    = \<lparr>href = href (process processInfo), kind = RecoveredProcessHandle,
                       proc_pid = Some p\<rparr>
         else runningProcesses (run (startup w file)) k = None"
proof -
  have d: "distinct (map fst (loadApps file))"
    using assms(1) by (simp add: loadApps_distinct comp_def)
  have m: "(k, restoredApp stored) \<in> set (loadApps file)"
    using assms(2) by (force simp: loadApps_distinct [OF assms(1)])
  have e: "runningProcesses (snd ([], initial)) k = None"
    by (simp add: initial_def)
  have r: "run (startup w file) = snd (foldl (\<lambda>st e. recoverOne w e st) ([], initial) (loadApps file))"
    by (simp add: startup_def case_prod_beta)
  from recoverAll_registry [OF d m e, of w] assms(3) show ?thesis
    by (simp add: r restoredApp_def)
qed

text \<open>
  Claim C3. Let the stored file hold, under distinct ids, a record for \<open>k\<close> with pid \<open>p\<close>.
  If \<open>p\<close> is alive at start-up, then after the recovery pass the app is listed with
  status \<open>running\<close>, the same pid and the stored port, the runner tracks it under a
  recovered handle with that pid, and the file written back keeps pid and port. If \<open>p\<close>
  is dead, the app is listed with status \<open>installed\<close> and without pid and port, the
  runner has no entry for it, and the file written back has neither pid nor port.
\<close>

theorem C3_recovery_pass:
  assumes "distinct (map fst file)" and "(k, stored) \<in> set file" and "p_pid stored = Some p"
  shows "(alive w p \<longrightarrow>
            (\<exists>info. map_of (apps (startup w file)) k = Some info
               \<and> info \<in> set (listApps (startup w file))
               \<and> info_status info = AppRunning \<and> info_pid info = Some p
               \<and> info_port info = p_port stored)
            \<and> (\<exists>processInfo. runningProcesses (run (startup w file)) k = Some processInfo
                 \<and> kind (process processInfo) = RecoveredProcessHandle
                 \<and> proc_pid (process processInfo) = Some p)
            \<and> (\<exists>saved. map_of (appsFile (startup w file)) k = Some saved
                 \<and> p_pid saved = Some p \<and> p_port saved = p_port stored))
       \<and> (\<not> alive w p \<longrightarrow>
            (\<exists>info. map_of (apps (startup w file)) k = Some info
               \<and> info \<in> set (listApps (startup w file))
               \<and> info_status info = Installed \<and> info_pid info = None
               \<and> info_port info = None)
            \<and> runningProcesses (run (startup w file)) k = None
            \<and> (\<exists>saved. map_of (appsFile (startup w file)) k = Some saved
                 \<and> p_pid saved = None \<and> p_port saved = None))"
proof -
  let ?info = "afterRecovery w (restoredApp stored)"
  have a: "map_of (apps (startup w file)) k = Some ?info"
    using map_of_mapped [OF assms(1,2), of "\<lambda>e. afterRecovery w (restoredApp (snd e))"]
    by (simp add: startup_apps [OF assms(1)])
  have l: "?info \<in> set (listApps (startup w file))"
    using assms(2) by (force simp: listApps_def startup_apps [OF assms(1)])
  have f: "map_of (appsFile (startup w file)) k = Some (persistedOf ?info)"
    using map_of_mapped [OF assms(1,2),
        of "\<lambda>e. persistedOf (afterRecovery w (restoredApp (snd e)))"]
    by (simp add: startup_appsFile [OF assms(1)])
  note r = startup_registry [OF assms, of w]
  show ?thesis
  proof (cases "alive w p")
    case True
    with r obtain processInfo where
      "runningProcesses (run (startup w file)) k = Some processInfo"
      "process processInfo = \<lparr>href = href (process processInfo), kind = RecoveredProcessHandle,
         proc_pid = Some p\<rparr>"
      by auto
    then have "\<exists>processInfo. runningProcesses (run (startup w file)) k = Some processInfo
        \<and> kind (process processInfo) = RecoveredProcessHandle
        \<and> proc_pid (process processInfo) = Some p"
      by (metis proc.select_convs(2,3))
    with True a l f assms(3) show ?thesis
      by (simp add: afterRecovery_def restoredApp_def persistedOf_def)
  next
    case False
    with r a l f assms(3) show ?thesis
      by (simp add: afterRecovery_def restoredApp_def persistedOf_def clearedApp_def)
  qed
qed

theorem C3_recovery_pass_witness:
  "(\<exists>info. map_of (apps (startup only_100 stored0)) ''a'' = Some info
      \<and> info \<in> set (listApps (startup only_100 stored0))
      \<and> info_status info = AppRunning \<and> info_pid info = Some 100 \<and> info_port info = Some 8000)
   \<and> (\<exists>processInfo. runningProcesses (run (startup only_100 stored0)) ''a'' = Some processInfo
        \<and> kind (process processInfo) = RecoveredProcessHandle
        \<and> proc_pid (process processInfo) = Some 100)
   \<and> (\<exists>saved. map_of (appsFile (startup only_100 stored0)) ''a'' = Some saved
        \<and> p_pid saved = Some 100 \<and> p_port saved = Some 8000)
   \<and> (\<exists>info. map_of (apps (startup only_100 stored0)) ''b'' = Some info
        \<and> info \<in> set (listApps (startup only_100 stored0))
        \<and> info_status info = Installed \<and> info_pid info = None \<and> info_port info = None)
   \<and> runningProcesses (run (startup only_100 stored0)) ''b'' = None
   \<and> (\<exists>saved. map_of (appsFile (startup only_100 stored0)) ''b'' = Some saved
        \<and> p_pid saved = None \<and> p_port saved = None)"
proof -
  let ?a = "\<lparr>p_id = ''a'', p_name = ''first'', p_installPath = Some ''/apps/a'',
              p_runCommand = Some ''python main.py'', p_pid = Some 100, p_port = Some 8000\<rparr>"
  let ?b = "\<lparr>p_id = ''b'', p_name = ''second'', p_installPath = Some ''/apps/b'',
              p_runCommand = Some ''python main.py'', p_pid = Some 200, p_port = Some 9000\<rparr>"
  have d: "distinct (map fst stored0)"
    by (simp add: stored0_def)
  have a: "(''a'', ?a) \<in> set stored0" and b: "(''b'', ?b) \<in> set stored0"
    by (simp_all add: stored0_def)
  have pa: "p_pid ?a = Some 100" and pb: "p_pid ?b = Some 200"
    by simp_all
  have alive: "alive only_100 100" and dead: "\<not> alive only_100 200"
    by (simp_all add: only_100_def)
  from C3_recovery_pass [OF d a pa, of only_100] C3_recovery_pass [OF d b pb, of only_100]
    alive dead
  show ?thesis by simp
qed

lemma adopted_state:
  "runningProcesses adopted ''app'' =
     Some \<lparr>process = \<lparr>href = 0, kind = RecoveredProcessHandle, proc_pid = Some 4242\<rparr>,
           startTime = 1000, appId = ''app'', installPath = Some ''/apps/app'',
           logPollInterval = Some 0\<rparr>"
  "statsMonitoringTimers adopted ''app'' = Some (Suc 0)"
  "stoppingProcesses adopted ''app'' = None"
  "watchInterval adopted 0 = Some 2"
  "listeners adopted 0 = Some (''app'', True)"
  "timers adopted 0 = Some (LogPoll ''app'' ''/logs/app.log'' 0 True)"
  "timers adopted (Suc 0) = Some (StatsPoll ''app'' True)"
  "timers adopted 2 =
     Some (Watch \<lparr>href = 0, kind = RecoveredProcessHandle, proc_pid = Some 4242\<rparr>)"
  "trace adopted = [Log ''app'' RecoveryNoLogFile, Log ''app'' (ProcessStarted (Some 4242))]"
  by (simp_all add: adopted_def recoverProcess_def replayLog_def world0_def initial_def
      runner_defs Let_def logFileOf_def)

lemmas handler_defs =
  pidOf_def isProcessAlive_def stopWatch_def clearStopping_def onClose_def onError_def
  emitClose_def emitError_def statsTick_def watchTick_def logTick_def killTree_def
  killFallback_def fire_def getProcessStats_def

lemma stats_tick_first:
  "trace (fire all_dead 1 adopted) =
     trace adopted @ [Log ''app'' (ProcessZombie 4242), ProcessStopped ''app'']"
  "runningProcesses (fire all_dead 1 adopted) ''app'' = None"
  "timers (fire all_dead 1 adopted) 0 = Some (LogPoll ''app'' ''/logs/app.log'' 0 True)"
  "timers (fire all_dead 1 adopted) (Suc 0) = None"
  "timers (fire all_dead 1 adopted) 2 =
     Some (Watch \<lparr>href = 0, kind = RecoveredProcessHandle, proc_pid = Some 4242\<rparr>)"
  "listeners (fire all_dead 1 adopted) 0 = Some (''app'', True)"
  "watchInterval (fire all_dead 1 adopted) 0 = Some 2"
  "stoppingProcesses (fire all_dead 1 adopted) ''app'' = None"
  "statsMonitoringTimers (fire all_dead 1 adopted) ''app'' = None"
  by (simp_all add: adopted_state handler_defs runner_defs all_dead_def world0_def Let_def)

lemma watch_tick_second:
  "trace (fire all_dead 2 (fire all_dead 1 adopted)) =
     trace adopted @ [Log ''app'' (ProcessZombie 4242), ProcessStopped ''app'',
                      Log ''app'' (ProcessExited None), ProcessStopped ''app'']"
  "timers (fire all_dead 2 (fire all_dead 1 adopted)) 0 =
     Some (LogPoll ''app'' ''/logs/app.log'' 0 True)"
  "timers (fire all_dead 2 (fire all_dead 1 adopted)) 2 = None"
proof -
  define s1 where "s1 = fire all_dead 1 adopted"
  note f = stats_tick_first [folded s1_def]
  have "trace (fire all_dead 2 s1) =
     trace adopted @ [Log ''app'' (ProcessZombie 4242), ProcessStopped ''app'',
                      Log ''app'' (ProcessExited None), ProcessStopped ''app'']"
    and "timers (fire all_dead 2 s1) 0 = Some (LogPoll ''app'' ''/logs/app.log'' 0 True)"
    and "timers (fire all_dead 2 s1) 2 = None"
    by (simp_all add: f handler_defs runner_defs all_dead_def world0_def Let_def)
  then show
    "trace (fire all_dead 2 (fire all_dead 1 adopted)) =
     trace adopted @ [Log ''app'' (ProcessZombie 4242), ProcessStopped ''app'',
                      Log ''app'' (ProcessExited None), ProcessStopped ''app'']"
    "timers (fire all_dead 2 (fire all_dead 1 adopted)) 0 =
     Some (LogPoll ''app'' ''/logs/app.log'' 0 True)"
    "timers (fire all_dead 2 (fire all_dead 1 adopted)) 2 = None"
    by (simp_all add: s1_def)
qed


lemma watch_tick_first:
  "trace (fire all_dead 2 adopted) =
     trace adopted @ [Log ''app'' (ProcessExited None), ProcessStopped ''app'']"
  "runningProcesses (fire all_dead 2 adopted) ''app'' = None"
  "timers (fire all_dead 2 adopted) 0 = Some (LogPoll ''app'' ''/logs/app.log'' 0 True)"
  "timers (fire all_dead 2 adopted) (Suc 0) = None"
  "timers (fire all_dead 2 adopted) 2 = None"
  by (simp_all add: adopted_state handler_defs runner_defs all_dead_def world0_def Let_def)

lemma stats_tick_second:
  "fire all_dead 1 (fire all_dead 2 adopted) = fire all_dead 2 adopted"
proof -
  define s1 where "s1 = fire all_dead 2 adopted"
  note f = watch_tick_first [folded s1_def]
  have "fire all_dead 1 s1 = s1"
    by (simp add: f fire_def)
  then show ?thesis by (simp add: s1_def)
qed

lemma child_close:
  "trace (emitClose \<lparr>href = 0, kind = ChildProcess, proc_pid = Some 4242\<rparr> (Some 0) launched) =
     trace launched @ [Log ''app'' (ProcessExited (Some 0)), ProcessStopped ''app'']"
  "runningProcesses
     (emitClose \<lparr>href = 0, kind = ChildProcess, proc_pid = Some 4242\<rparr> (Some 0) launched) ''app''
     = None"
  "timers (emitClose \<lparr>href = 0, kind = ChildProcess, proc_pid = Some 4242\<rparr> (Some 0) launched)
     (Suc 0) = None"
  "timers (emitClose \<lparr>href = 0, kind = ChildProcess, proc_pid = Some 4242\<rparr> (Some 0) launched) 0
     = Some (LogPoll ''app'' ''/logs/app.log'' 0 True)"
proof -
  have l: "listeners launched 0 = Some (''app'', True)"
    by (simp add: launched_def runApp_def world0_def commandToRun_def words_main
        resolveCommand_def initial_def runner_defs Let_def logFileOf_def)
  show
    "trace (emitClose \<lparr>href = 0, kind = ChildProcess, proc_pid = Some 4242\<rparr> (Some 0) launched) =
       trace launched @ [Log ''app'' (ProcessExited (Some 0)), ProcessStopped ''app'']"
    "runningProcesses
       (emitClose \<lparr>href = 0, kind = ChildProcess, proc_pid = Some 4242\<rparr> (Some 0) launched) ''app''
       = None"
    "timers (emitClose \<lparr>href = 0, kind = ChildProcess, proc_pid = Some 4242\<rparr> (Some 0) launched)
       (Suc 0) = None"
    "timers (emitClose \<lparr>href = 0, kind = ChildProcess, proc_pid = Some 4242\<rparr> (Some 0) launched) 0
       = Some (LogPoll ''app'' ''/logs/app.log'' 0 True)"
    by (simp_all add: l launched_entry launched_state handler_defs runner_defs Let_def)
qed

text \<open>
  Claim C2 fails on the code in two ways. First, for an adopted process whose death is
  seen by the health poll before the liveness watch: the health poll removes the entry
  and notifies, but leaves the watch running; the watch then emits \<open>close\<close>, and the
  \<open>close\<close> listener notifies a second time. (In the other order the notification comes
  once: the \<open>close\<close> listener cancels the health poll.) Second, on every path the
  log-poll timer stays pending: \<open>cleanupProcessResources\<close> deletes the registry entry
  before \<open>stopLogPolling\<close> looks the timer up in it. For a spawned child whose \<open>close\<close>
  event arrives, the entry is removed, the health poll is cancelled and the notification
  comes once, yet the log-poll timer is still pending.
\<close>

theorem C2_stop_notified_twice_and_log_poll_left:
  "trace (fire all_dead 2 (fire all_dead 1 adopted)) =
     trace adopted @ [Log ''app'' (ProcessZombie 4242), ProcessStopped ''app'',
                      Log ''app'' (ProcessExited None), ProcessStopped ''app'']
   \<and> timers (fire all_dead 2 (fire all_dead 1 adopted)) 0 =
       Some (LogPoll ''app'' ''/logs/app.log'' 0 True)
   \<and> trace (fire all_dead 1 (fire all_dead 2 adopted)) =
       trace adopted @ [Log ''app'' (ProcessExited None), ProcessStopped ''app'']
   \<and> timers (fire all_dead 1 (fire all_dead 2 adopted)) 0 =
       Some (LogPoll ''app'' ''/logs/app.log'' 0 True)
   \<and> trace (emitClose \<lparr>href = 0, kind = ChildProcess, proc_pid = Some 4242\<rparr> (Some 0) launched) =
       trace launched @ [Log ''app'' (ProcessExited (Some 0)), ProcessStopped ''app'']
   \<and> runningProcesses
        (emitClose \<lparr>href = 0, kind = ChildProcess, proc_pid = Some 4242\<rparr> (Some 0) launched) ''app''
       = None
   \<and> timers (emitClose \<lparr>href = 0, kind = ChildProcess, proc_pid = Some 4242\<rparr> (Some 0) launched)
        (Suc 0) = None
   \<and> timers (emitClose \<lparr>href = 0, kind = ChildProcess, proc_pid = Some 4242\<rparr> (Some 0) launched) 0
       = Some (LogPoll ''app'' ''/logs/app.log'' 0 True)"
  using watch_tick_second watch_tick_first child_close
  by (simp only: stats_tick_second simp_thms)

end
